theory Spec2Isabelle
  imports Main
begin

section \<open>JavaScript values used by the bot\<close>

text \<open>
  The repository holds six variants of one Telegram bot, each a single module:
  \<^item> \<open>idx\<close>: \<^verbatim>\<open>src/index.js\<close>;
  \<^item> \<open>p0a\<close>: \<^verbatim>\<open>src/unnamed/part_000\<close>, lines 1 to 338;
  \<^item> \<open>p0b\<close>: \<^verbatim>\<open>src/unnamed/part_000\<close>, lines 339 to 719;
  \<^item> \<open>p1\<close>: \<^verbatim>\<open>src/unnamed/part_001\<close>;
  \<^item> \<open>p2a\<close>: \<^verbatim>\<open>src/unnamed/part_002\<close>, from line 1 to the separator in line 128;
  \<^item> \<open>p2b\<close>: \<^verbatim>\<open>src/unnamed/part_002\<close>, from that separator to line 541.

  A definition that several variants share word for word is given once; a definition of
  one variant carries the variant's name as a suffix.

  A string is the list of the UTF-8 bytes of its text. The counts of documents, of
  sends and of seconds of uptime are natural numbers, far below \<open>2^53\<close>, where
  JavaScript's doubles are exact; the numbers that a user can make as large as they like
  (the duration of a mute) are doubles, \<open>js_num\<close>. An exception is a value of
  \<open>js_error\<close>. Console output is not modelled.
\<close>

datatype js_error =
    TypeError      \<comment> \<open>a property read or a method call on \<^verbatim>\<open>undefined\<close> or \<^verbatim>\<open>null\<close>\<close>
  | DbError        \<comment> \<open>the database driver rejected an operation\<close>

text \<open>A string is truthy when it is defined and not empty.\<close>

definition truthy :: "string option \<Rightarrow> bool" where
  "truthy v = (case v of None \<Rightarrow> False | Some s \<Rightarrow> s \<noteq> [])"

text \<open>\<^verbatim>\<open>a || b\<close> on two possibly undefined strings.\<close>

definition js_or :: "string option \<Rightarrow> string option \<Rightarrow> string option" where
  "js_or a b = (if truthy a then a else b)"

text \<open>\<^verbatim>\<open>s.startsWith(p)\<close>.\<close>

definition startsWith :: "string \<Rightarrow> string \<Rightarrow> bool" where
  "startsWith s p = (take (length p) s = p)"

text \<open>
  \<^verbatim>\<open>s.split(sep)\<close> for a separator of one character: the pieces between the
  separators, in order; the result is never the empty array (\<^verbatim>\<open>''.split(',')\<close> is
  \<^verbatim>\<open>['']\<close>).
\<close>

fun js_split :: "char \<Rightarrow> string \<Rightarrow> string list" where
  "js_split sep [] = [[]]"
| "js_split sep (c # cs) =
     (if c = sep then [] # js_split sep cs
      else (c # hd (js_split sep cs)) # tl (js_split sep cs))"

text \<open>Decimal digits, \<^verbatim>\<open>String(n)\<close> and \<^verbatim>\<open>n.toString()\<close> of an integer.\<close>

definition digit_char :: "nat \<Rightarrow> char" where
  "digit_char d = char_of (48 + d)"

fun digits_of :: "nat \<Rightarrow> string" where
  "digits_of n = (if n < 10 then [digit_char n] else digits_of (n div 10) @ [digit_char (n mod 10)])"

declare digits_of.simps [simp del]

definition toString :: "int \<Rightarrow> string" where
  "toString i = (if i < 0 then CHR ''-'' # digits_of (nat (- i)) else digits_of (nat i))"

text \<open>
  A number that is a non-negative integer or \<^verbatim>\<open>Infinity\<close>, as a double holds it.
  \<open>to_double n\<close> is the double nearest to the integer \<open>n\<close>: the integer itself up
  to \<open>2^53\<close>; beyond, the 53 leading bits of \<open>n\<close> rounded to nearest, ties to even,
  and \<^verbatim>\<open>Infinity\<close> from \<open>2^1024\<close>. \<open>excess_bits n\<close> is the number of bits of
  \<open>n\<close> after the 53 leading ones. The product and the sum of two doubles are the
  doubles nearest to the exact product and sum.
\<close>

datatype js_num = Num nat | PlusInfinity

fun excess_bits :: "nat \<Rightarrow> nat" where
  "excess_bits n = (if n < 2 ^ 53 then 0 else Suc (excess_bits (n div 2)))"

declare excess_bits.simps [simp del]

definition to_double :: "nat \<Rightarrow> js_num" where
  "to_double n =
     (let e = excess_bits n;
          q = n div 2 ^ e;
          r = n mod 2 ^ e;
          m = (if 2 ^ e < 2 * r \<or> (2 * r = 2 ^ e \<and> odd q) then q + 1 else q)
      in if 2 ^ 1024 \<le> m * 2 ^ e then PlusInfinity else Num (m * 2 ^ e))"

definition js_mul :: "js_num \<Rightarrow> nat \<Rightarrow> js_num" where
  "js_mul x k = (case x of Num n \<Rightarrow> to_double (n * k) | PlusInfinity \<Rightarrow> PlusInfinity)"

definition js_add :: "nat \<Rightarrow> js_num \<Rightarrow> js_num" where
  "js_add a x = (case x of Num n \<Rightarrow> to_double (a + n) | PlusInfinity \<Rightarrow> PlusInfinity)"

text \<open>
  \<^verbatim>\<open>String(x)\<close> of such a number in a template: the decimal digits up to \<open>2^53\<close>
  and \<^verbatim>\<open>Infinity\<close>. Between them JavaScript prints the shortest digits that denote
  the double, with an exponent from \<open>10^21\<close>; that text is not modelled and is the
  input \<open>bigText\<close>.
\<close>

definition number_text :: "(nat \<Rightarrow> string) \<Rightarrow> js_num \<Rightarrow> string" where
  "number_text bigText x =
     (case x of
        PlusInfinity \<Rightarrow> ''Infinity''
      | Num n \<Rightarrow> if n \<le> 2 ^ 53 then digits_of n else bigText n)"

text \<open>
  \<^verbatim>\<open>s.replace(pat, rep)\<close> with a string pattern: the first occurrence of \<open>pat\<close> is
  replaced, the rest of \<open>s\<close> is kept. The bot only calls it with the empty replacement.
\<close>

fun js_replace :: "string \<Rightarrow> string \<Rightarrow> string \<Rightarrow> string" where
  "js_replace pat rep [] = (if pat = [] then rep else [])"
| "js_replace pat rep (c # cs) =
     (if startsWith (c # cs) pat then rep @ drop (length pat) (c # cs)
      else c # js_replace pat rep cs)"

text \<open>
  \<^verbatim>\<open>s.trim()\<close>: the white space and the line terminators of ECMAScript are removed
  at both ends. Those of one byte are U+0009 to U+000D and the space; of two bytes,
  U+00A0 (\<open>C2 A0\<close>); of three bytes, U+1680 (\<open>E1 9A 80\<close>), U+2000 to U+200A
  (\<open>E2 80 80\<close> to \<open>E2 80 8A\<close>), U+2028, U+2029 and U+202F (\<open>E2 80 A8\<close>,
  \<open>E2 80 A9\<close>, \<open>E2 80 AF\<close>), U+205F (\<open>E2 81 9F\<close>), U+3000 (\<open>E3 80 80\<close>) and
  U+FEFF (\<open>EF BB BF\<close>). In UTF-8 a byte that starts a character is never a byte
  inside another one, so a character at the end of the text is recognised from its last
  byte backwards.
\<close>

definition is_space :: "char \<Rightarrow> bool" where
  "is_space c = (c \<in> set [CHR '' '', CHR 0x09, CHR 0x0A, CHR 0x0B, CHR 0x0C, CHR 0x0D])"

definition is_space2 :: "char \<Rightarrow> char \<Rightarrow> bool" where
  "is_space2 a b = (a = CHR 0xC2 \<and> b = CHR 0xA0)"

definition is_space3 :: "char \<Rightarrow> char \<Rightarrow> char \<Rightarrow> bool" where
  "is_space3 a b c =
     ((a = CHR 0xE1 \<and> b = CHR 0x9A \<and> c = CHR 0x80)
      \<or> (a = CHR 0xE2 \<and> b = CHR 0x80
           \<and> (((0x80::nat) \<le> of_char c \<and> of_char c \<le> (0x8A::nat))
                \<or> c = CHR 0xA8 \<or> c = CHR 0xA9 \<or> c = CHR 0xAF))
      \<or> (a = CHR 0xE2 \<and> b = CHR 0x81 \<and> c = CHR 0x9F)
      \<or> (a = CHR 0xE3 \<and> b = CHR 0x80 \<and> c = CHR 0x80)
      \<or> (a = CHR 0xEF \<and> b = CHR 0xBB \<and> c = CHR 0xBF))"

fun trimStart :: "string \<Rightarrow> string" where
  "trimStart (a # b # c # s) =
     (if is_space a then trimStart (b # c # s)
      else if is_space2 a b then trimStart (c # s)
      else if is_space3 a b c then trimStart s
      else a # b # c # s)"
| "trimStart [a, b] =
     (if is_space a then trimStart [b] else if is_space2 a b then [] else [a, b])"
| "trimStart [a] = (if is_space a then [] else [a])"
| "trimStart [] = []"

text \<open>The same from the end, on the reversed text: \<open>c\<close> is the last byte.\<close>

fun trimEnd_rev :: "string \<Rightarrow> string" where
  "trimEnd_rev (c # b # a # s) =
     (if is_space c then trimEnd_rev (b # a # s)
      else if is_space2 b c then trimEnd_rev (a # s)
      else if is_space3 a b c then trimEnd_rev s
      else c # b # a # s)"
| "trimEnd_rev [c, b] =
     (if is_space c then trimEnd_rev [b] else if is_space2 b c then [] else [c, b])"
| "trimEnd_rev [c] = (if is_space c then [] else [c])"
| "trimEnd_rev [] = []"

definition trim :: "string \<Rightarrow> string" where
  "trim s = rev (trimEnd_rev (rev (trimStart s)))"

text \<open>
  \<^verbatim>\<open>s.toLowerCase()\<close> and \<^verbatim>\<open>s.toUpperCase()\<close> on the ASCII letters; every other
  character is kept.
\<close>

definition lower_char :: "char \<Rightarrow> char" where
  "lower_char c = (if (65::nat) \<le> of_char c \<and> of_char c \<le> (90::nat) then char_of (of_char c + (32::nat)) else c)"

definition upper_char :: "char \<Rightarrow> char" where
  "upper_char c = (if (97::nat) \<le> of_char c \<and> of_char c \<le> (122::nat) then char_of (of_char c - (32::nat)) else c)"

definition toLowerCase :: "string \<Rightarrow> string" where
  "toLowerCase s = map lower_char s"

definition toUpperCase :: "string \<Rightarrow> string" where
  "toUpperCase s = map upper_char s"

text \<open>The characters outside ASCII that the bot's texts use, as their UTF-8 bytes.\<close>

definition nl :: string where "nl = [CHR 0x0A]"
definition cross_mark :: string where "cross_mark = [CHR 0xE2, CHR 0x9D, CHR 0x8C]"
definition check_mark :: string where "check_mark = [CHR 0xE2, CHR 0x9C, CHR 0x85]"
definition loudspeaker :: string where "loudspeaker = [CHR 0xF0, CHR 0x9F, CHR 0x93, CHR 0xA2]"
definition link_sign :: string where "link_sign = [CHR 0xF0, CHR 0x9F, CHR 0x94, CHR 0x97]"
definition wrench :: string where "wrench = [CHR 0xF0, CHR 0x9F, CHR 0x94, CHR 0xA7]"
definition muted_speaker :: string where "muted_speaker = [CHR 0xF0, CHR 0x9F, CHR 0x94, CHR 0x87]"
definition thumbs_up :: string where "thumbs_up = [CHR 0xF0, CHR 0x9F, CHR 0x91, CHR 0x8D]"
definition red_heart :: string where
  "red_heart = [CHR 0xE2, CHR 0x9D, CHR 0xA4, CHR 0xEF, CHR 0xB8, CHR 0x8F]"
definition fire :: string where "fire = [CHR 0xF0, CHR 0x9F, CHR 0x94, CHR 0xA5]"

section \<open>Process configuration\<close>

text \<open>
  \<^verbatim>\<open>process.env\<close> after \<^verbatim>\<open>require('dotenv').config()\<close>: each variable is a string
  or undefined.
\<close>

record env =
  BOT_TOKEN :: "string option"
  MONGO_URL :: "string option"
  MONGODB_URI :: "string option"
  MONGO_URI :: "string option"
  ADMINS :: "string option"

section \<open>The database name\<close>

text \<open>
  \<^verbatim>\<open>const dbName = mongoUri.split('/').pop().split('?')[0] || 'telegram_md_bot';\<close>
  in \<^verbatim>\<open>connectDB\<close> of the variants \<open>idx\<close>, \<open>p0a\<close>, \<open>p1\<close>, \<open>p2a\<close> and \<open>p2b\<close>.
  \<^verbatim>\<open>pop()\<close> is the last element and \<^verbatim>\<open>[0]\<close> the first one of an array that
  \<open>js_split\<close> never leaves empty (\<open>js_split_not_Nil\<close>).
\<close>

definition dbName :: "string \<Rightarrow> string" where
  "dbName mongoUri =
     (let seg = hd (js_split (CHR ''?'') (last (js_split (CHR ''/'') mongoUri)))
      in if seg = [] then ''telegram_md_bot'' else seg)"

text \<open>
  The claim's words, to compare \<open>dbName\<close> with: the last \<open>/\<close>-separated segment of
  the URI is what follows its last \<open>/\<close> (the whole URI when it has none), and stripping
  the query suffix keeps what stands before the first \<open>?\<close>.
\<close>

definition last_path_segment :: "string \<Rightarrow> string" where
  "last_path_segment uri = rev (takeWhile (\<lambda>c. c \<noteq> CHR ''/'') (rev uri))"

definition strip_query :: "string \<Rightarrow> string" where
  "strip_query seg = takeWhile (\<lambda>c. c \<noteq> CHR ''?'') seg"

section \<open>Platform calls and stored documents\<close>

text \<open>
  The calls a handler makes on the Telegram client, in the order it makes them.
  \<open>ReplyMarkdown\<close> stands for \<^verbatim>\<open>ctx.replyWithMarkdown(text)\<close> and for
  \<^verbatim>\<open>ctx.reply(text, { parse_mode: 'Markdown' })\<close>; \<open>SendMessage\<close> for
  \<^verbatim>\<open>ctx.telegram.sendMessage(chat, text, { parse_mode: 'Markdown' })\<close>; \<open>Delay\<close> for
  \<^verbatim>\<open>await new Promise((res) => setTimeout(res, ms))\<close>; \<open>React\<close> for
  \<^verbatim>\<open>ctx.react(emoji)\<close>, with \<open>None\<close> for \<^verbatim>\<open>undefined\<close>; \<open>RestrictChatMember\<close>
  for \<^verbatim>\<open>ctx.telegram.restrictChatMember(chat, user, { until_date, permissions:
  { can_send_messages } })\<close>, with \<open>None\<close> for a call that gives no \<^verbatim>\<open>until_date\<close>.
\<close>

datatype effect =
    Reply string
  | ReplyMarkdown string
  | SendMessage int string
  | Delay nat
  | React "string option"
  | RestrictChatMember int int "js_num option" bool

text \<open>
  A handler returns the calls it made and the exception it threw, if any. The outcome of
  the calls that the handler awaits is an input of the model: \<open>dbOk k\<close> tells whether
  the \<open>k\<close>-th database operation of the invocation succeeds, \<open>sendOk i\<close> whether the
  send to the \<open>i\<close>-th recipient of a broadcast does.
\<close>

type_synonym outcome = "effect list \<times> js_error option"

text \<open>
  The documents of the collections. A collection variable of the module
  (\<^verbatim>\<open>usersCollection\<close>, ...) is \<open>None\<close> while it is \<^verbatim>\<open>undefined\<close> and holds the
  collection's current content once \<^verbatim>\<open>connectDB\<close> has assigned it. The users are kept
  in stored order, as \<^verbatim>\<open>find({}).toArray()\<close> returns them.
\<close>

record user_doc =
  user_id :: int
  username :: "string option"
  first_name :: string
  last_name :: "string option"
  joined :: nat

section \<open>The administrator list\<close>

text \<open>
  \<^verbatim>\<open>isAdmin(ctx)\<close> of \<open>idx\<close>, \<open>p0a\<close> and \<open>p2b\<close>:
  \<^verbatim>\<open>const admins = process.env.ADMINS ? process.env.ADMINS.split(',') : [];
  return admins.includes(ctx.from.id.toString());\<close>
\<close>

definition isAdmin :: "env \<Rightarrow> int \<Rightarrow> bool" where
  "isAdmin e from_id =
     (let admins = (if truthy (ADMINS e) then js_split (CHR '','') (the (ADMINS e)) else [])
      in toString from_id \<in> set admins)"

text \<open>
  \<^verbatim>\<open>isAdmin(ctx)\<close> of \<open>p0b\<close>:
  \<^verbatim>\<open>const admins = process.env.ADMINS.split(','); return admins.includes(...)\<close>.
  With \<^verbatim>\<open>ADMINS\<close> undefined the call of \<^verbatim>\<open>split\<close> throws a TypeError.
\<close>

definition isAdmin_p0b :: "env \<Rightarrow> int \<Rightarrow> js_error + bool" where
  "isAdmin_p0b e from_id =
     (case ADMINS e of
        None \<Rightarrow> Inl TypeError
      | Some a \<Rightarrow> Inr (toString from_id \<in> set (js_split (CHR '','') a)))"

text \<open>
  The claim's words for an administrator: the caller's user id, as a string, appears in
  the comma-separated \<^verbatim>\<open>ADMINS\<close> list.
\<close>

definition listed_admin :: "env \<Rightarrow> int \<Rightarrow> bool" where
  "listed_admin e from_id =
     (case ADMINS e of None \<Rightarrow> False | Some a \<Rightarrow> toString from_id \<in> set (js_split (CHR '','') a))"

section \<open>The broadcast command\<close>

definition admin_only :: string where
  "admin_only = cross_mark @ '' This command is only available for admins.''"

definition db_not_available :: string where
  "db_not_available = cross_mark @ '' Database not available for broadcast.''"

definition broadcast_usage :: string where
  "broadcast_usage = ''Please provide a message to broadcast. Usage: /broadcast Your message here''"

definition broadcast_error :: string where
  "broadcast_error = cross_mark @ '' An error occurred during broadcast.''"

definition broadcast_starting :: "nat \<Rightarrow> string" where
  "broadcast_starting n = loudspeaker @ '' Starting broadcast to '' @ digits_of n @ '' users...''"

definition broadcast_text :: "string \<Rightarrow> string" where
  "broadcast_text message = loudspeaker @ '' *BROADCAST FROM ADMIN:*'' @ nl @ nl @ message"

definition broadcast_completed :: "nat \<Rightarrow> nat \<Rightarrow> string" where
  "broadcast_completed successCount failCount =
     check_mark @ '' Broadcast completed!'' @ nl @ ''Success: '' @ digits_of successCount
       @ nl @ ''Failed: '' @ digits_of failCount"

text \<open>
  The loop of all three broadcast handlers:
  \<^verbatim>\<open>for (const user of users) { try { await sendMessage(user._id, ...); successCount++;
  await delay(100); } catch (error) { console.error(...); failCount++; } }\<close>.
  The state is the calls made so far with \<^verbatim>\<open>successCount\<close> and \<^verbatim>\<open>failCount\<close>;
  \<open>i\<close> is the position of the next recipient.
\<close>

fun broadcast_loop ::
  "(nat \<Rightarrow> bool) \<Rightarrow> string \<Rightarrow> nat \<Rightarrow> user_doc list \<Rightarrow> effect list \<times> nat \<times> nat
     \<Rightarrow> effect list \<times> nat \<times> nat" where
  "broadcast_loop sendOk message i [] st = st"
| "broadcast_loop sendOk message i (user # users) (es, successCount, failCount) =
     (if sendOk i
      then broadcast_loop sendOk message (Suc i) users
             (es @ [SendMessage (user_id user) (broadcast_text message), Delay 100],
              Suc successCount, failCount)
      else broadcast_loop sendOk message (Suc i) users
             (es @ [SendMessage (user_id user) (broadcast_text message)],
              successCount, Suc failCount))"

text \<open>
  What follows \<^verbatim>\<open>const users = await usersCollection.find({}).toArray();\<close> in the
  three handlers: the counters start at 0, the start is announced, the loop runs, the
  counts are reported.
\<close>

definition broadcast_run :: "(nat \<Rightarrow> bool) \<Rightarrow> string \<Rightarrow> user_doc list \<Rightarrow> effect list" where
  "broadcast_run sendOk message users =
     (case broadcast_loop sendOk message 0 users ([Reply (broadcast_starting (length users))], 0, 0) of
        (es, successCount, failCount) \<Rightarrow> es @ [Reply (broadcast_completed successCount failCount)])"

text \<open>\<^verbatim>\<open>bot.command('broadcast', ...)\<close> of \<open>p0a\<close> (part_000, lines 245 to 282).\<close>

definition broadcast_p0a ::
  "env \<Rightarrow> user_doc list option \<Rightarrow> int \<Rightarrow> string \<Rightarrow> (nat \<Rightarrow> bool) \<Rightarrow> (nat \<Rightarrow> bool) \<Rightarrow> outcome" where
  "broadcast_p0a e usersCollection from_id text dbOk sendOk =
     (if \<not> isAdmin e from_id then ([Reply admin_only], None)
      else case usersCollection of
        None \<Rightarrow> ([Reply db_not_available], None)
      | Some users \<Rightarrow>
          (let message = trim (js_replace ''/broadcast'' [] text) in
           if message = [] then ([Reply broadcast_usage], None)
           else if \<not> dbOk 0 then ([Reply broadcast_error], None)
           else (broadcast_run sendOk message users, None)))"

text \<open>\<^verbatim>\<open>bot.command('broadcast', ...)\<close> of \<open>p2b\<close> (part_002, lines 426 to 463).\<close>

definition broadcast_p2b ::
  "env \<Rightarrow> user_doc list option \<Rightarrow> int \<Rightarrow> string \<Rightarrow> (nat \<Rightarrow> bool) \<Rightarrow> (nat \<Rightarrow> bool) \<Rightarrow> outcome" where
  "broadcast_p2b e usersCollection from_id text dbOk sendOk =
     (if \<not> isAdmin e from_id then ([Reply admin_only], None)
      else
        (let message = trim (js_replace ''/broadcast'' [] text) in
         if message = [] then ([Reply broadcast_usage], None)
         else case usersCollection of
           Some users \<Rightarrow>
             if \<not> dbOk 0 then ([Reply broadcast_error], None)
             else (broadcast_run sendOk message users, None)
         | None \<Rightarrow> ([Reply db_not_available], None)))"

text \<open>
  \<^verbatim>\<open>bot.command('broadcast', ...)\<close> of \<open>p0b\<close> (part_000, lines 463 to 497).
  \<^verbatim>\<open>isAdmin\<close> is called outside the \<^verbatim>\<open>try\<close>, so its TypeError leaves the handler;
  the read of an undefined \<^verbatim>\<open>usersCollection\<close> is inside and is caught.
\<close>

definition broadcast_p0b ::
  "env \<Rightarrow> user_doc list option \<Rightarrow> int \<Rightarrow> string \<Rightarrow> (nat \<Rightarrow> bool) \<Rightarrow> (nat \<Rightarrow> bool) \<Rightarrow> outcome" where
  "broadcast_p0b e usersCollection from_id text dbOk sendOk =
     (case isAdmin_p0b e from_id of
        Inl err \<Rightarrow> ([], Some err)
      | Inr False \<Rightarrow> ([Reply admin_only], None)
      | Inr True \<Rightarrow>
          (let message = trim (js_replace ''/broadcast'' [] text) in
           if message = [] then ([Reply broadcast_usage], None)
           else case usersCollection of
             None \<Rightarrow> ([Reply broadcast_error], None)
           | Some users \<Rightarrow>
               if \<not> dbOk 0 then ([Reply broadcast_error], None)
               else (broadcast_run sendOk message users, None)))"

text \<open>The recipients of the sends among the calls, in order.\<close>

fun recipients :: "effect list \<Rightarrow> int list" where
  "recipients [] = []"
| "recipients (SendMessage chat text # es) = chat # recipients es"
| "recipients (e # es) = recipients es"

text \<open>The number of failing sends among the first \<open>n\<close>.\<close>

definition failures :: "(nat \<Rightarrow> bool) \<Rightarrow> nat \<Rightarrow> nat" where
  "failures sendOk n = length (filter (\<lambda>i. \<not> sendOk i) [0..<n])"

section \<open>The mute command\<close>

text \<open>
  \<^verbatim>\<open>ctx.message.text.match(/(\d+)(m|h|d)/)\<close>: the leftmost place of the text where
  one or more decimal digits are followed by \<open>m\<close>, \<open>h\<close> or \<open>d\<close>; the first group
  is the whole run of digits (the quantifier is greedy), the second the letter. The text
  is read from left to right with the digits of the current run in \<open>ds\<close>: a digit
  extends the run, a unit letter after a run that is not empty is the match, and any
  other character starts afresh.
\<close>

definition is_digit :: "char \<Rightarrow> bool" where
  "is_digit c = ((48::nat) \<le> of_char c \<and> of_char c \<le> (57::nat))"

definition is_unit :: "char \<Rightarrow> bool" where
  "is_unit c = (c = CHR ''m'' \<or> c = CHR ''h'' \<or> c = CHR ''d'')"

fun match_from :: "string \<Rightarrow> string \<Rightarrow> (string \<times> char) option" where
  "match_from ds [] = None"
| "match_from ds (c # cs) =
     (if is_digit c then match_from (ds @ [c]) cs
      else if ds \<noteq> [] \<and> is_unit c then Some (ds, c)
      else match_from [] cs)"

definition timeMatch :: "string \<Rightarrow> (string \<times> char) option" where
  "timeMatch text = match_from [] text"

text \<open>
  \<^verbatim>\<open>parseInt(s)\<close> on a string of decimal digits: the double nearest to the integer
  that the digits denote. (ECMAScript lets an implementation approximate the integer
  after its 20th significant digit; the model takes the nearest double there too, as V8
  computes it.)
\<close>

definition decimal :: "string \<Rightarrow> nat" where
  "decimal s = foldl (\<lambda>n c. 10 * n + (of_char c - 48)) 0 s"

definition parseInt :: "string \<Rightarrow> js_num" where
  "parseInt s = to_double (decimal s)"

text \<open>A Telegram user, as far as the handlers read it.\<close>

record tg_user =
  tg_id :: int
  tg_username :: "string option"
  tg_first_name :: string

definition mute_usage :: string where
  "mute_usage = ''Please reply to a user to mute them.''"

definition mute_no_rights :: string where
  "mute_no_rights = cross_mark @ '' I need admin permissions to mute users.''"

definition muted_text :: "(nat \<Rightarrow> string) \<Rightarrow> tg_user \<Rightarrow> js_num \<Rightarrow> string" where
  "muted_text bigText repliedUser muteTime =
     muted_speaker @ '' User @''
       @ (if truthy (tg_username repliedUser) then the (tg_username repliedUser)
          else tg_first_name repliedUser)
       @ '' has been muted for '' @ number_text bigText muteTime @ '' minutes.''"

text \<open>
  \<^verbatim>\<open>let muteTime = 60; if (timeMatch) { ... }\<close> of the handler: the minutes of the
  restriction.
\<close>

definition muteTime_of :: "string \<Rightarrow> js_num" where
  "muteTime_of text =
     (case timeMatch text of
        None \<Rightarrow> Num 60
      | Some (digits, unit) \<Rightarrow>
          (let val = parseInt digits in
           if unit = CHR ''m'' then val
           else if unit = CHR ''h'' then js_mul val 60
           else if unit = CHR ''d'' then js_mul (js_mul val 60) 24
           else Num 60))"

text \<open>
  \<^verbatim>\<open>bot.command('mute', ...)\<close> of \<open>p0b\<close> (part_000, lines 502 to 534), the only
  variant that has the command. \<open>reply_to\<close> is the sender of
  \<^verbatim>\<open>ctx.message.reply_to_message\<close>, \<open>None\<close> when the message replies to nothing;
  \<open>now_ms\<close> is \<^verbatim>\<open>Date.now()\<close>, a time value: a whole number of milliseconds, at
  most 8640000000000000. On such a number \<^verbatim>\<open>Math.floor(now_ms / 1000)\<close> is the
  integer quotient: the exact quotient is at least 0.001 below the next whole number
  and is below \<open>2^43\<close>, where two neighbouring doubles are less than 0.001 apart, so
  the rounding of the division never reaches the next whole number. \<open>restrictOk\<close>
  tells whether the platform accepts the restriction.
\<close>

definition mute_p0b ::
  "(nat \<Rightarrow> string) \<Rightarrow> int \<Rightarrow> string \<Rightarrow> tg_user option \<Rightarrow> nat \<Rightarrow> bool \<Rightarrow> outcome" where
  "mute_p0b bigText chat_id text reply_to now_ms restrictOk =
     (case reply_to of
        None \<Rightarrow> ([Reply mute_usage], None)
      | Some repliedUser \<Rightarrow>
          (let muteTime = muteTime_of text;
               untilDate = js_add (now_ms div 1000) (js_mul muteTime 60)
           in (RestrictChatMember chat_id (tg_id repliedUser) (Some untilDate) False #
               (if restrictOk then [ReplyMarkdown (muted_text bigText repliedUser muteTime)]
                else [Reply mute_no_rights]), None)))"




section \<open>The connect command\<close>

text \<open>
  A document of the collection \<^verbatim>\<open>device_links\<close>. \<^verbatim>\<open>connectDB\<close> creates a unique
  index on \<^verbatim>\<open>userId\<close>, so the collection is a map from the user id to the document.
\<close>

record link_doc =
  userId :: int
  code :: string
  linkedAt :: nat

type_synonym links = "int \<rightharpoonup> link_doc"

text \<open>
  \<^verbatim>\<open>Math.floor(100000 + Math.random() * 900000).toString()\<close>. \<^verbatim>\<open>Math.random()\<close>
  is at least 0 and less than 1, so the floor is one of the 900000 integers from 100000
  to 999999; the draw is the input \<open>rnd\<close>, read modulo 900000.
\<close>

definition linkingCode :: "nat \<Rightarrow> string" where
  "linkingCode rnd = digits_of (100000 + rnd mod 900000)"

text \<open>
  \<^verbatim>\<open>linksCollection.updateOne({ userId }, { $set: { userId, code, linkedAt } },
  { upsert: true })\<close>.
\<close>

definition upsert_link :: "links \<Rightarrow> int \<Rightarrow> string \<Rightarrow> nat \<Rightarrow> links" where
  "upsert_link ls uid c now = ls(uid \<mapsto> \<lparr>userId = uid, code = c, linkedAt = now\<rparr>)"

definition connect_db_required :: string where
  "connect_db_required = cross_mark @ '' Database connection required for linking your device.''"

definition connect_use_code :: string where
  "connect_use_code = ''Use this code in your app or website to link your device with this bot.''"

definition already_linked_p2a :: "string \<Rightarrow> string" where
  "already_linked_p2a c = link_sign @ '' You are already linked! Your code: *'' @ c @ ''*''"

definition code_generated_p2a :: "string \<Rightarrow> string" where
  "code_generated_p2a c =
     link_sign @ '' Your device linking code has been generated:'' @ nl @ nl
       @ ''*'' @ c @ ''*'' @ nl @ nl @ connect_use_code"

definition connect_failed_p2a :: string where
  "connect_failed_p2a = cross_mark @ '' Failed to generate linking code.''"

definition already_linked_p0a :: string where
  "already_linked_p0a = link_sign @ '' Your device is already linked!''"

definition code_is_p0a :: "string \<Rightarrow> string" where
  "code_is_p0a c =
     link_sign @ '' Your device linking code is:'' @ nl @ nl
       @ ''*'' @ c @ ''*'' @ nl @ nl @ connect_use_code"

text \<open>
  \<^verbatim>\<open>bot.command('connect', ...)\<close> of \<open>p2a\<close> (part_002, lines 84 to 113): the new
  content of the collection and the outcome. Both database operations and the last reply
  are awaited inside the \<^verbatim>\<open>try\<close>; \<open>replyOk\<close> tells whether that reply is
  delivered; \<open>now\<close> is \<^verbatim>\<open>new Date()\<close>.
\<close>

definition connect_p2a ::
  "links option \<Rightarrow> int \<Rightarrow> (nat \<Rightarrow> bool) \<Rightarrow> bool \<Rightarrow> nat \<Rightarrow> nat \<Rightarrow> links option \<times> outcome" where
  "connect_p2a linksCollection from_id dbOk replyOk rnd now =
     (case linksCollection of
        None \<Rightarrow> (None, [Reply connect_db_required], None)
      | Some ls \<Rightarrow>
          if \<not> dbOk 0 then (Some ls, [Reply connect_failed_p2a], None)
          else case ls from_id of
            Some existing \<Rightarrow> (Some ls, [ReplyMarkdown (already_linked_p2a (code existing))], None)
          | None \<Rightarrow>
              if \<not> dbOk 1 then (Some ls, [Reply connect_failed_p2a], None)
              else (Some (upsert_link ls from_id (linkingCode rnd) now),
                    ReplyMarkdown (code_generated_p2a (linkingCode rnd)) #
                      (if replyOk then [] else [Reply connect_failed_p2a]),
                    None))"

text \<open>
  \<^verbatim>\<open>bot.command('connect', ...)\<close> of \<open>p0a\<close> (part_000, lines 201 to 224): no
  \<^verbatim>\<open>try\<close>, so a failing database operation leaves the handler as an exception.
\<close>

definition connect_p0a ::
  "links option \<Rightarrow> int \<Rightarrow> (nat \<Rightarrow> bool) \<Rightarrow> nat \<Rightarrow> nat \<Rightarrow> links option \<times> outcome" where
  "connect_p0a linksCollection from_id dbOk rnd now =
     (case linksCollection of
        None \<Rightarrow> (None, [Reply connect_db_required], None)
      | Some ls \<Rightarrow>
          if \<not> dbOk 0 then (Some ls, [], Some DbError)
          else case ls from_id of
            Some existingLink \<Rightarrow> (Some ls, [Reply already_linked_p0a], None)
          | None \<Rightarrow>
              if \<not> dbOk 1 then (Some ls, [], Some DbError)
              else (Some (upsert_link ls from_id (linkingCode rnd) now),
                    [ReplyMarkdown (code_is_p0a (linkingCode rnd))], None))"

text \<open>
  A sequence of \<^verbatim>\<open>/connect\<close> invocations, each with its caller and with the outcomes
  and draws of its own; the handlers run one after the other on the collection.
\<close>

record connect_call =
  caller :: int
  call_dbOk :: "nat \<Rightarrow> bool"
  call_replyOk :: bool
  call_rnd :: nat
  call_now :: nat

fun connect_all_p2a :: "links option \<Rightarrow> connect_call list \<Rightarrow> links option" where
  "connect_all_p2a lc [] = lc"
| "connect_all_p2a lc (c # cs) =
     connect_all_p2a
       (fst (connect_p2a lc (caller c) (call_dbOk c) (call_replyOk c) (call_rnd c) (call_now c))) cs"

fun connect_all_p0a :: "links option \<Rightarrow> connect_call list \<Rightarrow> links option" where
  "connect_all_p0a lc [] = lc"
| "connect_all_p0a lc (c # cs) =
     connect_all_p0a
       (fst (connect_p0a lc (caller c) (call_dbOk c) (call_rnd c) (call_now c))) cs"

section \<open>The settings record, auto-reaction and its toggle\<close>

text \<open>
  The document \<^verbatim>\<open>{ _id: 'global', ... }\<close> of the collection \<^verbatim>\<open>settings\<close>, with the
  fields that the handlers read; a field that a variant's default leaves out is
  \<^verbatim>\<open>undefined\<close> there, which every read treats as false. The collection is a map
  from \<^verbatim>\<open>_id\<close> to the document.
\<close>

record settings_doc =
  autoreact :: bool
  autoreact_emojis :: "string list"
  welcome_message :: bool
  antispam :: bool

type_synonym settings = "string \<rightharpoonup> settings_doc"

text \<open>The defaults that \<^verbatim>\<open>initSettings\<close> inserts: \<open>idx\<close> and \<open>p0b\<close>; \<open>p0a\<close> and \<open>p2b\<close>.\<close>

definition default_settings :: settings_doc where
  "default_settings =
     \<lparr>autoreact = True, autoreact_emojis = [thumbs_up, red_heart, fire],
      welcome_message = True, antispam = True\<rparr>"

definition default_settings_personal :: settings_doc where
  "default_settings_personal =
     \<lparr>autoreact = True, autoreact_emojis = [thumbs_up, red_heart, fire],
      welcome_message = False, antispam = False\<rparr>"

text \<open>
  What the start of the process does, as far as it leaves the process: the constructors
  of the two clients, the connection to the database and the operations on it, the
  launch of the bot (its connection to the platform), the end of the process by
  \<^verbatim>\<open>process.exit(status)\<close>, and its end by an exception that nothing catches or a
  rejection that nothing handles, on which Node ends the process with status 1.
\<close>

datatype startup_event =
    ProcessExit nat
  | UncaughtException
  | NewTelegraf "string option"
  | NewMongoClient "string option"
  | MongoConnect
  | UseDatabase string
  | CreateIndex string
  | FindSettings
  | InsertSettings
  | BotLaunch

text \<open>
  \<^verbatim>\<open>initSettings()\<close> of \<open>idx\<close>, \<open>p0a\<close> and \<open>p2b\<close>: the operations on the database
  and the new content of the collection. Nothing is done without the collection; the
  default is inserted when no global document is found; a failing operation is caught.
\<close>

definition initSettings ::
  "settings_doc \<Rightarrow> settings option \<Rightarrow> (nat \<Rightarrow> bool) \<Rightarrow> startup_event list \<times> settings option" where
  "initSettings dflt settingsCollection dbOk =
     (case settingsCollection of
        None \<Rightarrow> ([], None)
      | Some coll \<Rightarrow>
          if \<not> dbOk 0 then ([FindSettings], Some coll)
          else case coll ''global'' of
            Some defaultSettings \<Rightarrow> ([FindSettings], Some coll)
          | None \<Rightarrow>
              if \<not> dbOk 1 then ([FindSettings, InsertSettings], Some coll)
              else ([FindSettings, InsertSettings], Some (coll(''global'' \<mapsto> dflt))))"

text \<open>
  \<^verbatim>\<open>settings.autoreact_emojis[Math.floor(Math.random() * settings.autoreact_emojis.length)]\<close>:
  the floor is an index below the length, the draw \<open>rnd\<close> is read modulo the length;
  on the empty array the index is 0 and the element read is \<^verbatim>\<open>undefined\<close>.
\<close>

definition randomEmoji :: "string list \<Rightarrow> nat \<Rightarrow> string option" where
  "randomEmoji emojis rnd =
     (if emojis = [] then None else Some (emojis ! (rnd mod length emojis)))"

text \<open>
  \<^verbatim>\<open>bot.on('message', async (ctx, next) => ...)\<close> of \<open>p0a\<close> (part_000, lines 100 to
  123) and \<open>p2b\<close> (part_002, lines 225 to 249), registered before every command: the
  calls it makes before it passes the update on with \<^verbatim>\<open>next()\<close>, which it always
  does. \<open>text\<close> is \<^verbatim>\<open>ctx.message.text\<close>, \<open>None\<close> for a message without text. Every
  exception is caught inside, a failing reaction too.
\<close>

definition on_message :: "settings option \<Rightarrow> string option \<Rightarrow> (nat \<Rightarrow> bool) \<Rightarrow> nat \<Rightarrow> effect list" where
  "on_message settingsCollection text dbOk rnd =
     (if truthy text \<and> startsWith (the text) ''/'' then []
      else case settingsCollection of
        None \<Rightarrow> []
      | Some coll \<Rightarrow>
          if \<not> dbOk 0 then []
          else case coll ''global'' of
            None \<Rightarrow> []
          | Some settings \<Rightarrow>
              if autoreact settings \<and> truthy text
              then [React (randomEmoji (autoreact_emojis settings) rnd)]
              else [])"

text \<open>
  \<^verbatim>\<open>bot.on('message', async (ctx) => ...)\<close> of \<open>p0b\<close> (part_000, lines 608 to 627):
  no test of the prefix, no \<^verbatim>\<open>next\<close>. The reads of an undefined collection and of a
  missing document throw inside the \<^verbatim>\<open>try\<close>.
\<close>

definition on_message_p0b :: "settings option \<Rightarrow> string option \<Rightarrow> (nat \<Rightarrow> bool) \<Rightarrow> nat \<Rightarrow> effect list" where
  "on_message_p0b settingsCollection text dbOk rnd =
     (case settingsCollection of
        None \<Rightarrow> []
      | Some coll \<Rightarrow>
          if \<not> dbOk 0 then []
          else case coll ''global'' of
            None \<Rightarrow> []
          | Some settings \<Rightarrow>
              if autoreact settings \<and> truthy text
              then [React (randomEmoji (autoreact_emojis settings) rnd)]
              else [])"

text \<open>
  \<^verbatim>\<open>bot.on('message', ...)\<close> of \<open>p1\<close> (part_001, lines 45 to 50) and \<open>p2a\<close>
  (part_002, lines 43 to 47): the text is logged and the update passed on.
\<close>

definition on_message_p1 :: "string option \<Rightarrow> effect list" where
  "on_message_p1 text = []"

definition dquote :: string where "dquote = [CHR 0x22]"

definition autoreact_usage :: string where
  "autoreact_usage =
     ''Please specify '' @ dquote @ ''on'' @ dquote @ '' or '' @ dquote @ ''off'' @ dquote
       @ ''. Usage: /autoreact on''"

definition autoreact_status_p2b :: "bool \<Rightarrow> string" where
  "autoreact_status_p2b on =
     ''Auto-reactions are currently '' @ (if on then ''ON'' else ''OFF'')
       @ ''. Use /autoreact on or /autoreact off''"

definition autoreact_turned_p2b :: "string \<Rightarrow> string" where
  "autoreact_turned_p2b state =
     check_mark @ '' Auto-reactions have been turned '' @ toUpperCase state @ ''.''"

text \<open>
  \<^verbatim>\<open>settingsCollection.updateOne({ _id: 'global' }, { $set: { autoreact: b } })\<close>,
  without \<^verbatim>\<open>upsert\<close>: nothing is written when the document is missing.
\<close>

definition set_autoreact :: "settings \<Rightarrow> bool \<Rightarrow> settings" where
  "set_autoreact coll b =
     (case coll ''global'' of
        None \<Rightarrow> coll
      | Some s \<Rightarrow> coll(''global'' \<mapsto> s\<lparr>autoreact := b\<rparr>))"

text \<open>
  \<^verbatim>\<open>bot.command('autoreact', ...)\<close> of \<open>p2b\<close> (part_002, lines 336 to 356): the new
  content of the collection and the outcome. Without an argument the collection is read
  unguarded; the update is guarded by \<^verbatim>\<open>if (settingsCollection)\<close>, the reply is not.
\<close>

definition autoreact_p2b :: "settings option \<Rightarrow> string \<Rightarrow> (nat \<Rightarrow> bool) \<Rightarrow> settings option \<times> outcome" where
  "autoreact_p2b settingsCollection text dbOk =
     (let args = js_split (CHR '' '') text in
      if length args < 2 then
        (case settingsCollection of
           None \<Rightarrow> (None, [], Some TypeError)
         | Some coll \<Rightarrow>
             if \<not> dbOk 0 then (Some coll, [], Some DbError)
             else (Some coll,
                   [Reply (autoreact_status_p2b
                             (case coll ''global'' of None \<Rightarrow> False | Some s \<Rightarrow> autoreact s))],
                   None))
      else
        (let state = toLowerCase (args ! 1) in
         if state \<noteq> ''on'' \<and> state \<noteq> ''off'' then (settingsCollection, [Reply autoreact_usage], None)
         else case settingsCollection of
           Some coll \<Rightarrow>
             if \<not> dbOk 0 then (Some coll, [], Some DbError)
             else (Some (set_autoreact coll (state = ''on'')),
                   [Reply (autoreact_turned_p2b state)], None)
         | None \<Rightarrow> (None, [Reply (autoreact_turned_p2b state)], None)))"

section \<open>The order of the handlers in the variant p0b\<close>

text \<open>
  Telegraf runs the registered handlers in the order of their registration; a command
  handler takes the updates whose text starts with its command and passes every other
  update on, and none of the handlers of \<open>p0b\<close> calls \<^verbatim>\<open>next\<close>. The command of a
  text is what Telegram marks as the command entity at its start: the letters, digits
  and underscores after the \<open>/\<close>. A mention of the bot after the command is not
  modelled.
\<close>

definition is_command_char :: "char \<Rightarrow> bool" where
  "is_command_char c =
     (let n = (of_char c :: nat)
      in (48 \<le> n \<and> n \<le> 57) \<or> (65 \<le> n \<and> n \<le> 90) \<or> (97 \<le> n \<and> n \<le> 122) \<or> n = 95)"

definition command_of :: "string \<Rightarrow> string option" where
  "command_of text =
     (if startsWith text ''/'' then Some (takeWhile is_command_char (tl text)) else None)"

text \<open>
  The handlers of \<open>p0b\<close> in the order of part_000: \<^verbatim>\<open>start\<close> (line 387),
  \<^verbatim>\<open>help\<close> (414), \<^verbatim>\<open>broadcast\<close> (463), \<^verbatim>\<open>mute\<close> (502), \<^verbatim>\<open>unmute\<close> (537),
  \<^verbatim>\<open>autoreact\<close> (562), \<^verbatim>\<open>public\<close> (583), then \<^verbatim>\<open>bot.on('message')\<close> (608),
  which takes every message that is left; \<^verbatim>\<open>stats\<close> (663) and \<^verbatim>\<open>ping\<close> (685)
  are registered after it.
\<close>

datatype handler_p0b =
  HStart | HHelp | HBroadcast | HMute | HUnmute | HAutoreact | HPublic | HOnMessage

definition route_p0b :: "string \<Rightarrow> handler_p0b" where
  "route_p0b text =
     (case command_of text of
        None \<Rightarrow> HOnMessage
      | Some c \<Rightarrow>
          if c = ''start'' then HStart
          else if c = ''help'' then HHelp
          else if c = ''broadcast'' then HBroadcast
          else if c = ''mute'' then HMute
          else if c = ''unmute'' then HUnmute
          else if c = ''autoreact'' then HAutoreact
          else if c = ''public'' then HPublic
          else HOnMessage)"

section \<open>The start of the process\<close>

text \<open>
  What the process meets outside: whether \<^verbatim>\<open>new Telegraf(token)\<close> and
  \<^verbatim>\<open>new MongoClient(uri)\<close> return, whether \<^verbatim>\<open>mongoClient.connect()\<close> resolves,
  whether the \<open>k\<close>-th \<^verbatim>\<open>createIndex\<close> and the \<open>k\<close>-th operation of
  \<^verbatim>\<open>initSettings\<close> succeed, whether \<^verbatim>\<open>bot.launch()\<close> does, and the settings that
  the database holds.
\<close>

record world =
  telegraf_new :: bool
  mongo_new :: bool
  mongo_connect :: bool
  index_ok :: "nat \<Rightarrow> bool"
  settings_ok :: "nat \<Rightarrow> bool"
  launch_ok :: bool
  stored_settings :: settings

text \<open>
  A collection variable of the module: undefined until \<^verbatim>\<open>connectDB\<close> has assigned
  it, the collection of the database afterwards.
\<close>

definition collection_var :: "bool \<Rightarrow> 'a \<Rightarrow> 'a option" where
  "collection_var connected content = (if connected then Some content else None)"

text \<open>The \<^verbatim>\<open>createIndex\<close> calls of \<^verbatim>\<open>connectDB\<close>, inside its \<^verbatim>\<open>try\<close>.\<close>

fun create_indexes :: "world \<Rightarrow> nat \<Rightarrow> string list \<Rightarrow> startup_event list" where
  "create_indexes w k [] = []"
| "create_indexes w k (c # cs) =
     CreateIndex c # (if index_ok w k then create_indexes w (Suc k) cs else [])"

text \<open>
  \<^verbatim>\<open>connectDB()\<close> of \<open>idx\<close>, \<open>p0a\<close>, \<open>p1\<close>, \<open>p2a\<close> and \<open>p2b\<close>, which differ in the
  variable they read the URI from and in the indexes they create: the function returns at
  once without a URI; the client is constructed and connected inside a \<^verbatim>\<open>try\<close>; the
  collection variables are assigned after the connection and before the indexes. The
  result tells whether they were assigned.
\<close>

definition connectDB_with :: "string option \<Rightarrow> string list \<Rightarrow> world \<Rightarrow> startup_event list \<times> bool" where
  "connectDB_with mongoUri indexes w =
     (if \<not> truthy mongoUri then ([], False)
      else if \<not> mongo_new w then ([NewMongoClient mongoUri], False)
      else if \<not> mongo_connect w then ([NewMongoClient mongoUri, MongoConnect], False)
      else ([NewMongoClient mongoUri, MongoConnect, UseDatabase (dbName (the mongoUri))]
              @ create_indexes w 0 indexes, True))"

definition connectDB_idx :: "env \<Rightarrow> world \<Rightarrow> startup_event list \<times> bool" where
  "connectDB_idx e w = connectDB_with (js_or (MONGO_URL e) (MONGODB_URI e)) [] w"

definition connectDB_p0a :: "env \<Rightarrow> world \<Rightarrow> startup_event list \<times> bool" where
  "connectDB_p0a e w = connectDB_with (MONGO_URL e) [''users'', ''sessions'', ''device_links''] w"

definition connectDB_p1 :: "env \<Rightarrow> world \<Rightarrow> startup_event list \<times> bool" where
  "connectDB_p1 e w = connectDB_with (MONGO_URL e) [] w"

definition connectDB_p2a :: "env \<Rightarrow> world \<Rightarrow> startup_event list \<times> bool" where
  "connectDB_p2a e w = connectDB_with (MONGO_URL e) [''device_links''] w"

definition connectDB_p2b :: "env \<Rightarrow> world \<Rightarrow> startup_event list \<times> bool" where
  "connectDB_p2b e w = connectDB_with (js_or (MONGO_URL e) (MONGODB_URI e)) [''users'', ''sessions''] w"

text \<open>
  \<^verbatim>\<open>startBot()\<close>. In \<open>idx\<close> the launch is neither awaited nor caught
  (\<^verbatim>\<open>bot.launch().then(...)\<close>), so a rejected launch is a rejection that nothing
  handles; in \<open>p0a\<close> and \<open>p2b\<close> it is awaited inside the \<^verbatim>\<open>try\<close> whose
  \<^verbatim>\<open>catch\<close> ends the process with status 1; in \<open>p1\<close> and \<open>p2a\<close> the \<^verbatim>\<open>catch\<close>
  only logs, and there is no \<^verbatim>\<open>initSettings\<close>.
\<close>

definition startBot_idx :: "env \<Rightarrow> world \<Rightarrow> startup_event list" where
  "startBot_idx e w =
     (case connectDB_idx e w of
        (ev, connected) \<Rightarrow>
          ev @ fst (initSettings default_settings
                      (collection_var connected (stored_settings w)) (settings_ok w))
             @ BotLaunch # (if launch_ok w then [] else [UncaughtException]))"

definition startBot_p0a :: "env \<Rightarrow> world \<Rightarrow> startup_event list" where
  "startBot_p0a e w =
     (case connectDB_p0a e w of
        (ev, connected) \<Rightarrow>
          ev @ fst (initSettings default_settings_personal
                      (collection_var connected (stored_settings w)) (settings_ok w))
             @ BotLaunch # (if launch_ok w then [] else [ProcessExit 1]))"

definition startBot_p2b :: "env \<Rightarrow> world \<Rightarrow> startup_event list" where
  "startBot_p2b e w =
     (case connectDB_p2b e w of
        (ev, connected) \<Rightarrow>
          ev @ fst (initSettings default_settings_personal
                      (collection_var connected (stored_settings w)) (settings_ok w))
             @ BotLaunch # (if launch_ok w then [] else [ProcessExit 1]))"

definition startBot_p1 :: "env \<Rightarrow> world \<Rightarrow> startup_event list" where
  "startBot_p1 e w = fst (connectDB_p1 e w) @ [BotLaunch]"

definition startBot_p2a :: "env \<Rightarrow> world \<Rightarrow> startup_event list" where
  "startBot_p2a e w = fst (connectDB_p2a e w) @ [BotLaunch]"

text \<open>
  The module from its first statement, in the five variants that start with
  \<^verbatim>\<open>if (!process.env.BOT_TOKEN) { console.error(...); process.exit(1); }\<close>:
  \<^verbatim>\<open>process.exit\<close> ends the process, nothing after it runs.
\<close>

definition main_idx :: "env \<Rightarrow> world \<Rightarrow> startup_event list" where
  "main_idx e w =
     (if \<not> truthy (BOT_TOKEN e) then [ProcessExit 1]
      else NewTelegraf (BOT_TOKEN e) # startBot_idx e w)"

definition main_p0a :: "env \<Rightarrow> world \<Rightarrow> startup_event list" where
  "main_p0a e w =
     (if \<not> truthy (BOT_TOKEN e) then [ProcessExit 1]
      else NewTelegraf (BOT_TOKEN e) # startBot_p0a e w)"

definition main_p1 :: "env \<Rightarrow> world \<Rightarrow> startup_event list" where
  "main_p1 e w =
     (if \<not> truthy (BOT_TOKEN e) then [ProcessExit 1]
      else NewTelegraf (BOT_TOKEN e) # startBot_p1 e w)"

definition main_p2a :: "env \<Rightarrow> world \<Rightarrow> startup_event list" where
  "main_p2a e w =
     (if \<not> truthy (BOT_TOKEN e) then [ProcessExit 1]
      else NewTelegraf (BOT_TOKEN e) # startBot_p2a e w)"

definition main_p2b :: "env \<Rightarrow> world \<Rightarrow> startup_event list" where
  "main_p2b e w =
     (if \<not> truthy (BOT_TOKEN e) then [ProcessExit 1]
      else NewTelegraf (BOT_TOKEN e) # startBot_p2b e w)"

text \<open>
  The variant \<open>p0b\<close> (part_000, lines 339 to 361 and 702 to 719) tests no variable:
  both clients are constructed at the top of the module from whatever the environment
  holds, \<^verbatim>\<open>connectDB\<close> connects without a \<^verbatim>\<open>try\<close> and uses the fixed database
  name, \<^verbatim>\<open>initSettings\<close> is unguarded, and the \<^verbatim>\<open>catch\<close> of \<^verbatim>\<open>startBot\<close> logs the
  first exception of the two; the launch is neither awaited nor caught, as in \<open>idx\<close>;
  the variant never calls \<^verbatim>\<open>process.exit\<close>.
\<close>

definition launch_p0b :: "world \<Rightarrow> startup_event list" where
  "launch_p0b w = BotLaunch # (if launch_ok w then [] else [UncaughtException])"

definition startBot_p0b :: "env \<Rightarrow> world \<Rightarrow> startup_event list" where
  "startBot_p0b e w =
     (if \<not> mongo_connect w then [MongoConnect]
      else [MongoConnect, UseDatabase ''telegram_md_bot''] @
        (if \<not> settings_ok w 0 then [FindSettings]
         else case stored_settings w ''global'' of
           Some defaultSettings \<Rightarrow> FindSettings # launch_p0b w
         | None \<Rightarrow>
             if \<not> settings_ok w 1 then [FindSettings, InsertSettings]
             else FindSettings # InsertSettings # launch_p0b w))"

definition main_p0b :: "env \<Rightarrow> world \<Rightarrow> startup_event list" where
  "main_p0b e w =
     (if \<not> telegraf_new w then [NewTelegraf (BOT_TOKEN e), UncaughtException]
      else if \<not> mongo_new w
      then [NewTelegraf (BOT_TOKEN e), NewMongoClient (MONGO_URI e), UncaughtException]
      else NewTelegraf (BOT_TOKEN e) # NewMongoClient (MONGO_URI e) # startBot_p0b e w)"

text \<open>The events that open a connection to the database or to the platform, or use one.\<close>

fun is_network :: "startup_event \<Rightarrow> bool" where
  "is_network MongoConnect = True"
| "is_network (CreateIndex c) = True"
| "is_network FindSettings = True"
| "is_network InsertSettings = True"
| "is_network BotLaunch = True"
| "is_network ev = False"

section \<open>The stats command\<close>








section \<open>Properties of the string functions\<close>

lemma js_split_not_Nil: "js_split sep s \<noteq> []"
  by (induction s) auto

lemma hd_js_split: "hd (js_split sep s) = takeWhile (\<lambda>c. c \<noteq> sep) s"
  by (induction s) auto

lemma tl_js_split_Nil: "(tl (js_split sep s) = []) = (sep \<notin> set s)"
  by (induction s) (auto simp: js_split_not_Nil)

lemma last_js_split: "last (js_split sep s) = rev (takeWhile (\<lambda>c. c \<noteq> sep) (rev s))"
proof (induction s)
  case Nil
  show ?case by simp
next
  case (Cons c cs)
  have ne: "js_split sep cs \<noteq> []" by (rule js_split_not_Nil)
  show ?case
  proof (cases "c = sep")
    case True
    then show ?thesis
      using Cons ne by (simp add: takeWhile_append)
  next
    case False
    note csep = False
    show ?thesis
    proof (cases "sep \<in> set cs")
      case True
      then have "tl (js_split sep cs) \<noteq> []" by (simp add: tl_js_split_Nil)
      then have a: "last (js_split sep (c # cs)) = last (js_split sep cs)"
        using csep ne by (simp add: last_tl)
      have b: "takeWhile (\<lambda>c. c \<noteq> sep) (rev cs @ [c]) = takeWhile (\<lambda>c. c \<noteq> sep) (rev cs)"
        using True by (auto simp: takeWhile_append)
      show ?thesis by (simp only: a Cons.IH rev.simps b)
    next
      case False
      then have t: "tl (js_split sep cs) = []" by (simp add: tl_js_split_Nil)
      have h: "hd (js_split sep cs) = cs"
        using False by (auto simp: hd_js_split takeWhile_eq_all_conv)
      have a: "last (js_split sep (c # cs)) = c # cs"
        using csep t h by simp
      have b: "takeWhile (\<lambda>c. c \<noteq> sep) (rev cs @ [c]) = rev cs @ [c]"
        using False csep by (auto simp: takeWhile_eq_all_conv)
      show ?thesis by (simp add: a b del: js_split.simps)
    qed
  qed
qed

text \<open>Evaluating \<open>digits_of\<close> on a numeral.\<close>

lemma digit_char_values:
  "digit_char 0 = CHR ''0''" "digit_char (Suc 0) = CHR ''1''" "digit_char 2 = CHR ''2''"
  "digit_char 3 = CHR ''3''" "digit_char 4 = CHR ''4''" "digit_char 5 = CHR ''5''"
  "digit_char 6 = CHR ''6''" "digit_char 7 = CHR ''7''" "digit_char 8 = CHR ''8''"
  "digit_char 9 = CHR ''9''"
  by (simp_all add: digit_char_def char_of_def bit_0)

section \<open>Properties of the broadcast\<close>

lemma digits_of_not_Nil: "digits_of n \<noteq> []"
  by (subst digits_of.simps) simp

lemma toString_not_Nil: "toString i \<noteq> []"
  by (simp add: toString_def digits_of_not_Nil)

lemma recipients_append: "recipients (xs @ ys) = recipients xs @ recipients ys"
  by (induction xs rule: recipients.induct) simp_all

lemma broadcast_loop_result:
  "broadcast_loop sendOk m i users (es, s, f) = (es', s', f') \<Longrightarrow>
     s' = s + length (filter sendOk [i..<i + length users]) \<and>
     f' = f + length (filter (\<lambda>k. \<not> sendOk k) [i..<i + length users]) \<and>
     recipients es' = recipients es @ map user_id users \<and>
     (\<exists>more. es' = es @ more)"
proof (induction users arbitrary: i es s f)
  case Nil
  then show ?case by simp
next
  case (Cons u us)
  have upt: "[i..<i + length (u # us)] = i # [Suc i..<Suc i + length us]"
    by (subst upt_rec) simp
  show ?case
  proof (cases "sendOk i")
    case True
    with Cons.prems have
      "broadcast_loop sendOk m (Suc i) us
         (es @ [SendMessage (user_id u) (broadcast_text m), Delay 100], Suc s, f) = (es', s', f')"
      by simp
    from Cons.IH [OF this] True show ?thesis
      unfolding upt by (auto simp: recipients_append)
  next
    case False
    with Cons.prems have
      "broadcast_loop sendOk m (Suc i) us
         (es @ [SendMessage (user_id u) (broadcast_text m)], s, Suc f) = (es', s', f')"
      by simp
    from Cons.IH [OF this] False show ?thesis
      unfolding upt by (auto simp: recipients_append)
  qed
qed

lemma filter_split_length:
  "length (filter P xs) + length (filter (\<lambda>k. \<not> P k) xs) = length xs"
  by (induction xs) auto

lemma broadcast_run_result:
  "\<exists>es. broadcast_run sendOk m users =
          es @ [Reply (broadcast_completed (length users - failures sendOk (length users))
                         (failures sendOk (length users)))]
        \<and> recipients es = map user_id users"
proof -
  obtain es s f where r:
    "broadcast_loop sendOk m 0 users ([Reply (broadcast_starting (length users))], 0, 0) = (es, s, f)"
    by (metis prod_cases3)
  from broadcast_loop_result [OF r] have
    s: "s = length (filter sendOk [0..<length users])" and
    f: "f = failures sendOk (length users)" and
    rc: "recipients es = map user_id users"
    by (simp_all add: failures_def)
  have "s + f = length users"
    using filter_split_length [of sendOk "[0..<length users]"] s f by (simp add: failures_def)
  then have "s = length users - f" by simp
  then show ?thesis
    using r f rc by (simp add: broadcast_run_def)
qed

text \<open>
  White space of more than one byte is trimmed too: a \<^verbatim>\<open>/broadcast\<close> followed by a
  space and a no-break space (U+00A0) carries no message, and gets the usage text.
\<close>

lemma trim_no_break_space:
  "trim (js_replace ''/broadcast'' [] (''/broadcast '' @ [CHR 0xC2, CHR 0xA0])) = []"
  by code_simp

lemma trim_keeps_inner_space:
  "trim ([CHR 0xE3, CHR 0x80, CHR 0x80] @ '' a b '' @ [CHR 0xE2, CHR 0x80, CHR 0xA8]) = ''a b''"
  by code_simp

lemma isAdmin_listed:
  "isAdmin e from_id = (\<exists>a. ADMINS e = Some a \<and> toString from_id \<in> set (js_split (CHR '','') a))"
proof (cases "ADMINS e")
  case None
  then show ?thesis by (simp add: isAdmin_def truthy_def)
next
  case (Some a)
  show ?thesis
  proof (cases "a = []")
    case True
    then show ?thesis using Some toString_not_Nil [of from_id]
      by (auto simp: isAdmin_def truthy_def)
  next
    case False
    then show ?thesis using Some by (simp add: isAdmin_def truthy_def)
  qed
qed

lemma isAdmin_p0b_listed:
  "isAdmin e from_id \<Longrightarrow> isAdmin_p0b e from_id = Inr True"
  by (auto simp: isAdmin_listed isAdmin_p0b_def)

lemma isAdmin_eq_listed: "isAdmin e from_id = listed_admin e from_id"
  by (auto simp: isAdmin_listed listed_admin_def split: option.splits)

section \<open>Properties of the duration match\<close>































section \<open>Properties of the connect command\<close>

lemma connect_p2a_keeps:
  "ls u = Some l \<Longrightarrow>
     \<exists>ls'. fst (connect_p2a (Some ls) who dbOk replyOk rnd now) = Some ls' \<and> ls' u = Some l"
  by (auto simp: connect_p2a_def upsert_link_def split: option.splits)

lemma connect_p0a_keeps:
  "ls u = Some l \<Longrightarrow>
     \<exists>ls'. fst (connect_p0a (Some ls) who dbOk rnd now) = Some ls' \<and> ls' u = Some l"
  by (auto simp: connect_p0a_def upsert_link_def split: option.splits)

lemma connect_all_p2a_keeps:
  "ls u = Some l \<Longrightarrow> \<exists>ls'. connect_all_p2a (Some ls) calls = Some ls' \<and> ls' u = Some l"
proof (induction calls arbitrary: ls)
  case Nil
  then show ?case by simp
next
  case (Cons c cs)
  from connect_p2a_keeps [of ls u l "caller c" "call_dbOk c" "call_replyOk c" "call_rnd c" "call_now c"]
    Cons.prems obtain ls1 where
    "fst (connect_p2a (Some ls) (caller c) (call_dbOk c) (call_replyOk c) (call_rnd c) (call_now c)) = Some ls1"
    "ls1 u = Some l" by blast
  then show ?case using Cons.IH [of ls1] by simp
qed

lemma connect_all_p0a_keeps:
  "ls u = Some l \<Longrightarrow> \<exists>ls'. connect_all_p0a (Some ls) calls = Some ls' \<and> ls' u = Some l"
proof (induction calls arbitrary: ls)
  case Nil
  then show ?case by simp
next
  case (Cons c cs)
  from connect_p0a_keeps [of ls u l "caller c" "call_dbOk c" "call_rnd c" "call_now c"]
    Cons.prems obtain ls1 where
    "fst (connect_p0a (Some ls) (caller c) (call_dbOk c) (call_rnd c) (call_now c)) = Some ls1"
    "ls1 u = Some l" by blast
  then show ?case using Cons.IH [of ls1] by simp
qed

section \<open>Properties of the auto-reaction\<close>

lemma lower_on_off: "toLowerCase ''on'' = ''on''" "toLowerCase ''off'' = ''off''"
  by (simp_all add: toLowerCase_def lower_char_def)

lemma upper_on_off: "toUpperCase ''on'' = ''ON''" "toUpperCase ''off'' = ''OFF''"
  by (simp_all add: toUpperCase_def upper_char_def char_of_def bit_0 bit_Suc)

lemma autoreact_off_store:
  "dbOk 0 \<Longrightarrow> fst (autoreact_p2b (Some coll) ''/autoreact off'' dbOk) = Some (set_autoreact coll False)"
  by (simp add: autoreact_p2b_def Let_def lower_on_off)

lemma autoreact_on_store:
  "dbOk 0 \<Longrightarrow> fst (autoreact_p2b (Some coll) ''/autoreact on'' dbOk) = Some (set_autoreact coll True)"
  by (simp add: autoreact_p2b_def Let_def lower_on_off)

lemma autoreact_no_store:
  "autoreact_p2b None ''/autoreact on'' dbOk = (None, [Reply (autoreact_turned_p2b ''on'')], None)"
  "autoreact_p2b None ''/autoreact off'' dbOk = (None, [Reply (autoreact_turned_p2b ''off'')], None)"
  by (simp_all add: autoreact_p2b_def Let_def lower_on_off)

lemma randomEmoji_in_set:
  "emojis \<noteq> [] \<Longrightarrow> \<exists>e\<in>set emojis. randomEmoji emojis rnd = Some e"
  by (simp add: randomEmoji_def)

lemma startsWith_slash_truthy: "startsWith text ''/'' \<Longrightarrow> truthy (Some text)"
  by (auto simp: startsWith_def truthy_def)

section \<open>Properties of the start and of the stats command\<close>




section \<open>The claims\<close>

text \<open>
  C10. For every connection URI, the database name is the last \<open>/\<close>-separated
  segment of the URI with its \<open>?\<close>-query suffix stripped, and the fixed name
  \<open>telegram_md_bot\<close> when that is the empty string; it is the name under which
  \<^verbatim>\<open>connectDB\<close> opens the database once the connection has succeeded.
\<close>

theorem dbName_last_segment:
  "dbName uri =
     (if strip_query (last_path_segment uri) = [] then ''telegram_md_bot''
      else strip_query (last_path_segment uri))
   \<and> (uri \<noteq> [] \<and> mongo_new w \<and> mongo_connect w \<longrightarrow>
        connectDB_with (Some uri) indexes w =
          ([NewMongoClient (Some uri), MongoConnect, UseDatabase (dbName uri)]
             @ create_indexes w 0 indexes, True))"
  by (simp add: dbName_def strip_query_def last_path_segment_def hd_js_split last_js_split
        connectDB_with_def truthy_def)

theorem dbName_last_segment_witness:
  "dbName ''mongodb://u:p@host:27017/botdb?retryWrites=true'' = ''botdb''
   \<and> dbName ''mongodb://u:p@host:27017/'' = ''telegram_md_bot''
   \<and> connectDB_with (Some ''mongodb://u:p@host:27017/botdb?retryWrites=true'') []
        \<lparr>telegraf_new = True, mongo_new = True, mongo_connect = True, index_ok = (\<lambda>k. True),
          settings_ok = (\<lambda>k. True), launch_ok = True, stored_settings = Map.empty\<rparr>
      = ([NewMongoClient (Some ''mongodb://u:p@host:27017/botdb?retryWrites=true''), MongoConnect,
          UseDatabase ''botdb''], True)"
proof -
  let ?u = "''mongodb://u:p@host:27017/botdb?retryWrites=true''"
  let ?v = "''mongodb://u:p@host:27017/''"
  let ?w = "\<lparr>telegraf_new = True, mongo_new = True, mongo_connect = True, index_ok = (\<lambda>k. True),
          settings_ok = (\<lambda>k. True), launch_ok = True, stored_settings = Map.empty\<rparr>"
  have a: "dbName ?u = ''botdb''"
    using dbName_last_segment [of ?u ?w "[]", THEN conjunct1]
    by (simp add: strip_query_def last_path_segment_def)
  have b: "dbName ?v = ''telegram_md_bot''"
    using dbName_last_segment [of ?v ?w "[]", THEN conjunct1]
    by (simp add: strip_query_def last_path_segment_def)
  have h: "?u \<noteq> [] \<and> mongo_new ?w \<and> mongo_connect ?w" by simp
  have c: "connectDB_with (Some ?u) [] ?w =
             ([NewMongoClient (Some ?u), MongoConnect, UseDatabase ''botdb''], True)"
    using dbName_last_segment [of ?u ?w "[]", THEN conjunct2, THEN mp, OF h]
    unfolding a by simp
  show ?thesis using a b c by blast
qed

text \<open>
  C1. In each of the three broadcast handlers, a broadcast by an administrator over the
  stored users, of which \<open>N\<close> are stored and the sends to \<open>K\<close> fail, makes one send
  to every stored user in stored order, whatever sends failed before, and then, as its
  last call, replies with the report: the line \<^verbatim>\<open>Broadcast completed!\<close>, the line
  \<^verbatim>\<open>Success: \<close> with \<open>N - K\<close> in decimal digits and the line \<^verbatim>\<open>Failed: \<close> with
  \<open>K\<close> in decimal digits. The message to broadcast is what is left of the text
  without its first \<^verbatim>\<open>/broadcast\<close> and without the white space at both ends, and it
  is not empty.
\<close>

theorem broadcast_reports_counts:
  assumes admin: "isAdmin e from_id"
      and msg: "trim (js_replace ''/broadcast'' [] text) \<noteq> []"
      and db: "dbOk 0"
  shows "\<exists>es.
       broadcast_p0a e (Some users) from_id text dbOk sendOk =
         (es @ [Reply ([CHR 0xE2, CHR 0x9C, CHR 0x85] @ '' Broadcast completed!'' @ [CHR 0x0A]
                  @ ''Success: '' @ digits_of (length users - failures sendOk (length users))
                  @ [CHR 0x0A]
                  @ ''Failed: '' @ digits_of (failures sendOk (length users)))], None)
     \<and> broadcast_p2b e (Some users) from_id text dbOk sendOk =
         (es @ [Reply ([CHR 0xE2, CHR 0x9C, CHR 0x85] @ '' Broadcast completed!'' @ [CHR 0x0A]
                  @ ''Success: '' @ digits_of (length users - failures sendOk (length users))
                  @ [CHR 0x0A]
                  @ ''Failed: '' @ digits_of (failures sendOk (length users)))], None)
     \<and> broadcast_p0b e (Some users) from_id text dbOk sendOk =
         (es @ [Reply ([CHR 0xE2, CHR 0x9C, CHR 0x85] @ '' Broadcast completed!'' @ [CHR 0x0A]
                  @ ''Success: '' @ digits_of (length users - failures sendOk (length users))
                  @ [CHR 0x0A]
                  @ ''Failed: '' @ digits_of (failures sendOk (length users)))], None)
     \<and> recipients es = map user_id users"
proof -
  let ?report = "[CHR 0xE2, CHR 0x9C, CHR 0x85] @ '' Broadcast completed!'' @ [CHR 0x0A]
                  @ ''Success: '' @ digits_of (length users - failures sendOk (length users))
                  @ [CHR 0x0A]
                  @ ''Failed: '' @ digits_of (failures sendOk (length users))"
  have r: "broadcast_completed (length users - failures sendOk (length users))
             (failures sendOk (length users)) = ?report"
    by (simp add: broadcast_completed_def check_mark_def nl_def)
  obtain es where es:
    "broadcast_run sendOk (trim (js_replace ''/broadcast'' [] text)) users = es @ [Reply ?report]"
    and rc: "recipients es = map user_id users"
    using broadcast_run_result [of sendOk "trim (js_replace ''/broadcast'' [] text)" users]
    unfolding r by blast
  have a: "broadcast_p0a e (Some users) from_id text dbOk sendOk =
             (broadcast_run sendOk (trim (js_replace ''/broadcast'' [] text)) users, None)"
    using admin msg db by (simp add: broadcast_p0a_def Let_def)
  have b: "broadcast_p2b e (Some users) from_id text dbOk sendOk =
             (broadcast_run sendOk (trim (js_replace ''/broadcast'' [] text)) users, None)"
    using admin msg db by (simp add: broadcast_p2b_def Let_def)
  have c: "broadcast_p0b e (Some users) from_id text dbOk sendOk =
             (broadcast_run sendOk (trim (js_replace ''/broadcast'' [] text)) users, None)"
    using isAdmin_p0b_listed [OF admin] msg db by (simp add: broadcast_p0b_def Let_def)
  show ?thesis
    unfolding a b c es using rc by blast
qed

theorem broadcast_reports_counts_witness:
  "\<exists>es.
       broadcast_p0a \<lparr>BOT_TOKEN = Some ''t'', MONGO_URL = None, MONGODB_URI = None, MONGO_URI = None, ADMINS = Some ''7,42''\<rparr>
         (Some [\<lparr>user_id = 10, username = None, first_name = ''Ann'', last_name = None, joined = 0\<rparr>,
                \<lparr>user_id = 20, username = None, first_name = ''Bob'', last_name = None, joined = 0\<rparr>,
                \<lparr>user_id = 30, username = None, first_name = ''Cy'', last_name = None, joined = 0\<rparr>])
         42 ''/broadcast hello'' (\<lambda>k. True) (\<lambda>i. i \<noteq> 1) =
         (es @ [Reply ([CHR 0xE2, CHR 0x9C, CHR 0x85] @ '' Broadcast completed!'' @ [CHR 0x0A]
                  @ ''Success: 2'' @ [CHR 0x0A] @ ''Failed: 1'')], None)
     \<and> recipients es = [10, 20, 30]"
proof -
  let ?e = "\<lparr>BOT_TOKEN = Some ''t'', MONGO_URL = None, MONGODB_URI = None, MONGO_URI = None, ADMINS = Some ''7,42''\<rparr>"
  let ?us = "[\<lparr>user_id = 10, username = None, first_name = ''Ann'', last_name = None, joined = 0\<rparr>,
                \<lparr>user_id = 20, username = None, first_name = ''Bob'', last_name = None, joined = 0\<rparr>,
                \<lparr>user_id = 30, username = None, first_name = ''Cy'', last_name = None, joined = 0\<rparr>]"
  have h1: "isAdmin ?e 42" by code_simp
  have h2: "trim (js_replace ''/broadcast'' [] ''/broadcast hello'') \<noteq> []" by code_simp
  have f: "failures (\<lambda>i. i \<noteq> 1) (length ?us) = 1" by code_simp
  have g2: "digits_of 2 = ''2''" by (simp add: digits_of.simps digit_char_values)
  have g1: "digits_of (Suc 0) = ''1''" by (simp add: digits_of.simps digit_char_values)
  have g: "digits_of (Suc (Suc 0)) = ''2''" "digits_of (Suc 0) = ''1''"
    using g1 g2 by (simp_all add: numeral_2_eq_2)
  obtain es where
    "broadcast_p0a ?e (Some ?us) 42 ''/broadcast hello'' (\<lambda>k. True) (\<lambda>i. i \<noteq> 1) =
         (es @ [Reply ([CHR 0xE2, CHR 0x9C, CHR 0x85] @ '' Broadcast completed!'' @ [CHR 0x0A]
                  @ ''Success: '' @ digits_of (length ?us - failures (\<lambda>i. i \<noteq> 1) (length ?us))
                  @ [CHR 0x0A]
                  @ ''Failed: '' @ digits_of (failures (\<lambda>i. i \<noteq> 1) (length ?us)))], None)"
    and "recipients es = map user_id ?us"
    using broadcast_reports_counts [OF h1 h2, of "\<lambda>k. True" ?us "\<lambda>i. i \<noteq> 1"] by blast
  then have
    "broadcast_p0a ?e (Some ?us) 42 ''/broadcast hello'' (\<lambda>k. True) (\<lambda>i. i \<noteq> 1) =
         (es @ [Reply ([CHR 0xE2, CHR 0x9C, CHR 0x85] @ '' Broadcast completed!'' @ [CHR 0x0A]
                  @ ''Success: 2'' @ [CHR 0x0A] @ ''Failed: 1'')], None)
     \<and> recipients es = [10, 20, 30]"
    unfolding f using g by simp
  then show ?thesis by blast
qed

text \<open>
  The gate of the broadcast. A caller whose id string is not in the comma-separated
  \<^verbatim>\<open>ADMINS\<close> list gets the rejection as the only call of \<^verbatim>\<open>/broadcast\<close>, and no
  send is made. With \<^verbatim>\<open>ADMINS\<close> absent nobody is listed: the variants \<open>p0a\<close> and
  \<open>p2b\<close>, whose \<^verbatim>\<open>isAdmin\<close> tests the variable first, reject without error; the
  variant \<open>p0b\<close>, whose \<^verbatim>\<open>isAdmin\<close> splits the variable untested, ends with a
  TypeError before any send or reply.
\<close>

theorem broadcast_admin_gate:
  assumes "\<not> listed_admin e from_id"
  shows "broadcast_p0a e usersCollection from_id text dbOk sendOk = ([Reply admin_only], None)
       \<and> broadcast_p2b e usersCollection from_id text dbOk sendOk = ([Reply admin_only], None)
       \<and> broadcast_p0b e usersCollection from_id text dbOk sendOk =
           (if ADMINS e = None then ([], Some TypeError) else ([Reply admin_only], None))"
  using assms
  by (auto simp: broadcast_p0a_def broadcast_p2b_def broadcast_p0b_def isAdmin_eq_listed
        listed_admin_def isAdmin_p0b_def split: option.splits)

theorem broadcast_admin_gate_witness:
  "\<not> listed_admin \<lparr>BOT_TOKEN = Some ''t'', MONGO_URL = None, MONGODB_URI = None, MONGO_URI = None, ADMINS = Some ''7,42''\<rparr> 5
   \<and> broadcast_p0a \<lparr>BOT_TOKEN = Some ''t'', MONGO_URL = None, MONGODB_URI = None, MONGO_URI = None, ADMINS = Some ''7,42''\<rparr>
        (Some []) 5 ''/broadcast hello'' (\<lambda>k. True) (\<lambda>i. True) = ([Reply admin_only], None)
   \<and> broadcast_p0b \<lparr>BOT_TOKEN = Some ''t'', MONGO_URL = None, MONGODB_URI = None, MONGO_URI = None, ADMINS = Some ''7,42''\<rparr>
        (Some []) 5 ''/broadcast hello'' (\<lambda>k. True) (\<lambda>i. True) = ([Reply admin_only], None)"
proof -
  let ?e = "\<lparr>BOT_TOKEN = Some ''t'', MONGO_URL = None, MONGODB_URI = None, MONGO_URI = None, ADMINS = Some ''7,42''\<rparr>"
  have h: "\<not> listed_admin ?e 5" by code_simp
  show ?thesis
    using h broadcast_admin_gate [OF h, of "Some []" "''/broadcast hello''" "\<lambda>k. True" "\<lambda>i. True"]
    by simp
qed

text \<open>
  C6. \<^verbatim>\<open>/broadcast\<close> performs no send and replies with a rejection unless the
  caller's id string is in the comma-separated \<^verbatim>\<open>ADMINS\<close> list; with \<^verbatim>\<open>ADMINS\<close>
  absent nobody is an administrator and every \<^verbatim>\<open>/broadcast\<close> is rejected without
  error. The variant \<open>p0b\<close> breaks the last part: with \<^verbatim>\<open>ADMINS\<close> absent its
  \<^verbatim>\<open>/broadcast\<close> throws a TypeError and replies nothing.
\<close>

theorem broadcast_absent_admins_throws:
  "broadcast_p0b \<lparr>BOT_TOKEN = Some ''t'', MONGO_URL = None, MONGODB_URI = None, MONGO_URI = None, ADMINS = None\<rparr>
        (Some []) 42 ''/broadcast hello'' (\<lambda>k. True) (\<lambda>i. True) = ([], Some TypeError)"
  by (simp add: broadcast_p0b_def isAdmin_p0b_def)

text \<open>
  C8. A \<^verbatim>\<open>/mute\<close> whose message replies to nothing gets the usage text as its only
  call: no restriction is requested from the platform.
\<close>

theorem mute_without_reply:
  "mute_p0b bigText chat text None now_ms restrictOk = ([Reply mute_usage], None)"
  by (simp add: mute_p0b_def)

theorem mute_without_reply_witness:
  "mute_p0b (\<lambda>n. []) (- 1001) ''/mute 10m'' None 1700000000123 True = ([Reply ''Please reply to a user to mute them.''], None)"
  using mute_without_reply [of "\<lambda>n. []" "- 1001" "''/mute 10m''" 1700000000123 True]
  by (simp add: mute_usage_def)




text \<open>
  C2, as the code has it. With the collection available, the first \<^verbatim>\<open>/connect\<close> of
  a user whose database operations succeed stores the drawn code, and whatever
  \<^verbatim>\<open>/connect\<close> invocations follow, by this user or by others, with whatever outcomes,
  the document stored for the user stays the same: a repeat never regenerates or
  overwrites the code. The reply of a repeat is, in the variant \<open>p2a\<close>, the text
  \<^verbatim>\<open>You are already linked! Your code: \<close> with the stored code between two
  asterisks; in the variant \<open>p0a\<close> it only says that the device is already linked.
\<close>

theorem connect_keeps_code:
  "(ls u = None \<and> dbOk 0 \<and> dbOk 1 \<longrightarrow>
      (\<forall>calls. \<exists>ls' l.
          connect_all_p2a (fst (connect_p2a (Some ls) u dbOk replyOk rnd now)) calls = Some ls'
        \<and> ls' u = Some l \<and> code l = linkingCode rnd)
    \<and> (\<forall>calls. \<exists>ls' l.
          connect_all_p0a (fst (connect_p0a (Some ls) u dbOk rnd now)) calls = Some ls'
        \<and> ls' u = Some l \<and> code l = linkingCode rnd))
   \<and> (\<forall>l. ls u = Some l \<longrightarrow>
        (\<forall>calls. \<exists>ls'. connect_all_p2a (Some ls) calls = Some ls' \<and> ls' u = Some l)
      \<and> (\<forall>calls. \<exists>ls'. connect_all_p0a (Some ls) calls = Some ls' \<and> ls' u = Some l)
      \<and> (dbOk 0 \<longrightarrow>
            connect_p2a (Some ls) u dbOk replyOk rnd now =
              (Some ls, [ReplyMarkdown ([CHR 0xF0, CHR 0x9F, CHR 0x94, CHR 0x97] @ '' You are already linked! Your code: *''
                                          @ code l @ ''*'')], None)
          \<and> connect_p0a (Some ls) u dbOk rnd now =
              (Some ls, [Reply ([CHR 0xF0, CHR 0x9F, CHR 0x94, CHR 0x97] @ '' Your device is already linked!'')], None)))"
proof (intro conjI impI allI)
  fix calls
  assume h: "ls u = None \<and> dbOk 0 \<and> dbOk 1"
  let ?l = "\<lparr>userId = u, code = linkingCode rnd, linkedAt = now\<rparr>"
  have f: "fst (connect_p2a (Some ls) u dbOk replyOk rnd now) = Some (upsert_link ls u (linkingCode rnd) now)"
    using h by (simp add: connect_p2a_def)
  have "upsert_link ls u (linkingCode rnd) now u = Some ?l" by (simp add: upsert_link_def)
  with connect_all_p2a_keeps [of "upsert_link ls u (linkingCode rnd) now" u ?l calls] f
  show "\<exists>ls' l. connect_all_p2a (fst (connect_p2a (Some ls) u dbOk replyOk rnd now)) calls = Some ls'
        \<and> ls' u = Some l \<and> code l = linkingCode rnd"
    by auto
next
  fix calls
  assume h: "ls u = None \<and> dbOk 0 \<and> dbOk 1"
  let ?l = "\<lparr>userId = u, code = linkingCode rnd, linkedAt = now\<rparr>"
  have f: "fst (connect_p0a (Some ls) u dbOk rnd now) = Some (upsert_link ls u (linkingCode rnd) now)"
    using h by (simp add: connect_p0a_def)
  have "upsert_link ls u (linkingCode rnd) now u = Some ?l" by (simp add: upsert_link_def)
  with connect_all_p0a_keeps [of "upsert_link ls u (linkingCode rnd) now" u ?l calls] f
  show "\<exists>ls' l. connect_all_p0a (fst (connect_p0a (Some ls) u dbOk rnd now)) calls = Some ls'
        \<and> ls' u = Some l \<and> code l = linkingCode rnd"
    by auto
next
  fix l calls
  assume "ls u = Some l"
  then show "\<exists>ls'. connect_all_p2a (Some ls) calls = Some ls' \<and> ls' u = Some l"
    using connect_all_p2a_keeps [of ls u l calls] by simp
next
  fix l calls
  assume "ls u = Some l"
  then show "\<exists>ls'. connect_all_p0a (Some ls) calls = Some ls' \<and> ls' u = Some l"
    using connect_all_p0a_keeps [of ls u l calls] by simp
next
  fix l
  assume "ls u = Some l" "dbOk 0"
  then show "connect_p2a (Some ls) u dbOk replyOk rnd now =
              (Some ls, [ReplyMarkdown ([CHR 0xF0, CHR 0x9F, CHR 0x94, CHR 0x97] @ '' You are already linked! Your code: *''
                                          @ code l @ ''*'')], None)"
    by (simp add: connect_p2a_def already_linked_p2a_def link_sign_def)
next
  fix l
  assume "ls u = Some l" "dbOk 0"
  then show "connect_p0a (Some ls) u dbOk rnd now =
              (Some ls, [Reply ([CHR 0xF0, CHR 0x9F, CHR 0x94, CHR 0x97] @ '' Your device is already linked!'')], None)"
    by (simp add: connect_p0a_def already_linked_p0a_def link_sign_def)
qed

theorem connect_keeps_code_witness:
  "(\<exists>ls' l. connect_all_p2a (fst (connect_p2a (Some Map.empty) 7 (\<lambda>k. True) True 23456 1))
        [\<lparr>caller = 7, call_dbOk = (\<lambda>k. True), call_replyOk = True, call_rnd = 99, call_now = 2\<rparr>,
         \<lparr>caller = 8, call_dbOk = (\<lambda>k. True), call_replyOk = True, call_rnd = 5, call_now = 3\<rparr>] = Some ls'
      \<and> ls' 7 = Some l \<and> code l = ''123456'')
   \<and> connect_p2a (Some [7 \<mapsto> \<lparr>userId = 7, code = ''123456'', linkedAt = 1\<rparr>]) 7 (\<lambda>k. True) True 99 2 =
       (Some [7 \<mapsto> \<lparr>userId = 7, code = ''123456'', linkedAt = 1\<rparr>],
        [ReplyMarkdown ([CHR 0xF0, CHR 0x9F, CHR 0x94, CHR 0x97] @ '' You are already linked! Your code: *123456*'')], None)"
proof -
  let ?ok = "\<lambda>k::nat. True"
  let ?calls = "[\<lparr>caller = 7, call_dbOk = ?ok, call_replyOk = True, call_rnd = 99, call_now = 2\<rparr>,
         \<lparr>caller = 8, call_dbOk = ?ok, call_replyOk = True, call_rnd = 5, call_now = 3\<rparr>]"
  let ?l = "\<lparr>userId = 7, code = ''123456'', linkedAt = 1\<rparr>"
  have c: "linkingCode 23456 = ''123456''"
    by (simp add: linkingCode_def digits_of.simps digit_char_values)
  have h: "(Map.empty :: links) 7 = None \<and> ?ok 0 \<and> ?ok 1" by simp
  have a: "\<exists>ls' l. connect_all_p2a (fst (connect_p2a (Some Map.empty) 7 ?ok True 23456 1)) ?calls = Some ls'
      \<and> ls' 7 = Some l \<and> code l = ''123456''"
    using connect_keeps_code [of Map.empty 7 ?ok True 23456 1, THEN conjunct1, THEN mp, OF h,
        THEN conjunct1, THEN spec, of ?calls]
    unfolding c by simp
  have k: "[7 \<mapsto> ?l] 7 = Some ?l" by simp
  have b: "connect_p2a (Some [7 \<mapsto> ?l]) 7 ?ok True 99 2 =
       (Some [7 \<mapsto> ?l],
        [ReplyMarkdown ([CHR 0xF0, CHR 0x9F, CHR 0x94, CHR 0x97] @ '' You are already linked! Your code: *123456*'')], None)"
    using connect_keeps_code [of "[7 \<mapsto> ?l]" 7 ?ok True 99 2, THEN conjunct2, THEN spec, of ?l,
        THEN mp, OF k, THEN conjunct2, THEN conjunct2]
    by simp
  show ?thesis using a b by blast
qed

text \<open>
  The claim as stated fails on \<open>p0a\<close>: the reply of a repeat is the same text whatever
  code is stored, so it does not return the stored code.
\<close>

theorem connect_repeat_without_code:
  "snd (connect_p0a (Some [7 \<mapsto> \<lparr>userId = 7, code = ''123456'', linkedAt = 1\<rparr>]) 7 (\<lambda>k. True) 99 2) =
     ([Reply ([CHR 0xF0, CHR 0x9F, CHR 0x94, CHR 0x97] @ '' Your device is already linked!'')], None)
   \<and> snd (connect_p0a (Some [7 \<mapsto> \<lparr>userId = 7, code = ''654321'', linkedAt = 1\<rparr>]) 7 (\<lambda>k. True) 99 2) =
     ([Reply ([CHR 0xF0, CHR 0x9F, CHR 0x94, CHR 0x97] @ '' Your device is already linked!'')], None)"
  by (simp add: connect_p0a_def already_linked_p0a_def link_sign_def)

text \<open>
  C3, as the code has it (variant \<open>p2b\<close>). The handler of plain messages reads the
  settings collection at each message. After a \<^verbatim>\<open>/autoreact off\<close> whose update
  succeeded, the next plain-text message gets no reaction call. After
  \<^verbatim>\<open>/autoreact on\<close>, it gets exactly one reaction call, with an emoji of the stored
  list, when the settings collection is available and holds the global document with a
  list of emojis that is not empty; when the collection is unavailable the write of the
  toggle is skipped and the next message gets no reaction call.
\<close>

theorem autoreact_toggle_next_message:
  assumes plain: "text \<noteq> []" "\<not> startsWith text ''/''"
      and toggled: "dbOk 0"
  shows "on_message (fst (autoreact_p2b settingsCollection ''/autoreact off'' dbOk)) (Some text) dbOk' rnd = []
     \<and> on_message (fst (autoreact_p2b None ''/autoreact on'' dbOk)) (Some text) dbOk' rnd = []
     \<and> (settingsCollection = Some coll \<and> coll ''global'' = Some s \<and> autoreact_emojis s \<noteq> [] \<and> dbOk' 0 \<longrightarrow>
           (\<exists>e\<in>set (autoreact_emojis s).
              on_message (fst (autoreact_p2b settingsCollection ''/autoreact on'' dbOk)) (Some text) dbOk' rnd
                = [React (Some e)]))"
proof (intro conjI impI)
  show "on_message (fst (autoreact_p2b settingsCollection ''/autoreact off'' dbOk)) (Some text) dbOk' rnd = []"
  proof (cases settingsCollection)
    case None
    then show ?thesis by (simp add: autoreact_no_store on_message_def)
  next
    case (Some coll)
    then show ?thesis
      using toggled plain
      by (auto simp: autoreact_off_store on_message_def set_autoreact_def truthy_def
            split: option.splits)
  qed
next
  show "on_message (fst (autoreact_p2b None ''/autoreact on'' dbOk)) (Some text) dbOk' rnd = []"
    by (simp add: autoreact_no_store on_message_def)
next
  assume h: "settingsCollection = Some coll \<and> coll ''global'' = Some s \<and> autoreact_emojis s \<noteq> [] \<and> dbOk' 0"
  then obtain e where e: "e \<in> set (autoreact_emojis s)" "randomEmoji (autoreact_emojis s) rnd = Some e"
    using randomEmoji_in_set by blast
  have "on_message (fst (autoreact_p2b settingsCollection ''/autoreact on'' dbOk)) (Some text) dbOk' rnd
              = [React (Some e)]"
    using h e toggled plain
    by (simp add: autoreact_on_store on_message_def set_autoreact_def truthy_def)
  with e show "\<exists>e\<in>set (autoreact_emojis s).
            on_message (fst (autoreact_p2b settingsCollection ''/autoreact on'' dbOk)) (Some text) dbOk' rnd
              = [React (Some e)]"
    by blast
qed

theorem autoreact_toggle_next_message_witness:
  "on_message (fst (autoreact_p2b (Some [''global'' \<mapsto> default_settings_personal]) ''/autoreact off'' (\<lambda>k. True)))
      (Some ''hello'') (\<lambda>k. True) 4 = []
   \<and> (\<exists>e\<in>set [thumbs_up, red_heart, fire].
        on_message (fst (autoreact_p2b (Some [''global'' \<mapsto> default_settings_personal]) ''/autoreact on'' (\<lambda>k. True)))
          (Some ''hello'') (\<lambda>k. True) 4 = [React (Some e)])"
proof -
  let ?ok = "\<lambda>k::nat. True"
  let ?coll = "[''global'' \<mapsto> default_settings_personal]"
  have p: "''hello'' \<noteq> []" "\<not> startsWith ''hello'' ''/''" "?ok 0"
    by (simp_all add: startsWith_def)
  have h: "Some ?coll = Some ?coll \<and> ?coll ''global'' = Some default_settings_personal
       \<and> autoreact_emojis default_settings_personal \<noteq> [] \<and> ?ok 0"
    by (simp add: default_settings_personal_def)
  have e: "autoreact_emojis default_settings_personal = [thumbs_up, red_heart, fire]"
    by (simp add: default_settings_personal_def)
  note t = autoreact_toggle_next_message [OF p, of "Some ?coll" ?ok 4 ?coll default_settings_personal]
  from t [THEN conjunct1] t [THEN conjunct2, THEN conjunct2, THEN mp, OF h]
  show ?thesis unfolding e by blast
qed

text \<open>
  The claim as stated fails without the database: after \<^verbatim>\<open>/autoreact on\<close> the
  plain-text message that follows gets no reaction call.
\<close>

theorem autoreact_on_without_store:
  "snd (autoreact_p2b None ''/autoreact on'' (\<lambda>k. True)) =
     ([Reply (check_mark @ '' Auto-reactions have been turned ON.'')], None)
   \<and> on_message (fst (autoreact_p2b None ''/autoreact on'' (\<lambda>k. True))) (Some ''hello'') (\<lambda>k. True) 0 = []"
  by (simp add: autoreact_no_store autoreact_turned_p2b_def upper_on_off on_message_def)

text \<open>
  Commands and the handler of messages. In the variants \<open>p0a\<close> and \<open>p2b\<close> the
  handler returns at once on a text that starts with \<open>/\<close>, and in \<open>p1\<close> and \<open>p2a\<close>
  it never reacts: there a command gets no reaction call. In the variant \<open>p0b\<close> the
  handler has no such test: it reacts to every text it is given while auto-reaction is
  on, and it is given every message that is not one of the seven commands registered
  before it.
\<close>

theorem commands_bypass_autoreact:
  "(startsWith text ''/'' \<longrightarrow>
      on_message settingsCollection (Some text) dbOk rnd = [] \<and> on_message_p1 (Some text) = [])
   \<and> (settingsCollection = Some coll \<and> coll ''global'' = Some s \<and> autoreact s \<and> dbOk 0 \<and> text \<noteq> [] \<longrightarrow>
        on_message_p0b settingsCollection (Some text) dbOk rnd
          = [React (randomEmoji (autoreact_emojis s) rnd)])
   \<and> (route_p0b text = HOnMessage) =
        (command_of text \<notin> Some ` set [''start'', ''help'', ''broadcast'', ''mute'', ''unmute'',
                                        ''autoreact'', ''public''])"
proof (intro conjI impI)
  assume "startsWith text ''/''"
  then show "on_message settingsCollection (Some text) dbOk rnd = []"
    using startsWith_slash_truthy by (simp add: on_message_def)
next
  show "on_message_p1 (Some text) = []" by (simp add: on_message_p1_def)
next
  assume "settingsCollection = Some coll \<and> coll ''global'' = Some s \<and> autoreact s \<and> dbOk 0 \<and> text \<noteq> []"
  then show "on_message_p0b settingsCollection (Some text) dbOk rnd
          = [React (randomEmoji (autoreact_emojis s) rnd)]"
    by (simp add: on_message_p0b_def truthy_def)
next
  show "(route_p0b text = HOnMessage) =
        (command_of text \<notin> Some ` set [''start'', ''help'', ''broadcast'', ''mute'', ''unmute'',
                                        ''autoreact'', ''public''])"
    by (cases "command_of text") (auto simp: route_p0b_def)
qed

theorem commands_bypass_autoreact_witness:
  "on_message (Some [''global'' \<mapsto> default_settings_personal]) (Some ''/ping'') (\<lambda>k. True) 4 = []
   \<and> on_message_p1 (Some ''/ping'') = []
   \<and> on_message_p0b (Some [''global'' \<mapsto> default_settings]) (Some ''/ping'') (\<lambda>k. True) 4
        = [React (Some red_heart)]"
proof -
  let ?ok = "\<lambda>k::nat. True"
  have a: "startsWith ''/ping'' ''/''" by (simp add: startsWith_def)
  have b: "Some [''global'' \<mapsto> default_settings] = Some [''global'' \<mapsto> default_settings]
      \<and> [''global'' \<mapsto> default_settings] ''global'' = Some default_settings
      \<and> autoreact default_settings \<and> ?ok 0 \<and> ''/ping'' \<noteq> []"
    by (simp add: default_settings_def)
  have r: "randomEmoji (autoreact_emojis default_settings) 4 = Some red_heart"
    by (simp add: randomEmoji_def default_settings_def)
  from commands_bypass_autoreact [of "''/ping''" "Some [''global'' \<mapsto> default_settings_personal]" ?ok 4,
         THEN conjunct1, THEN mp, OF a]
       commands_bypass_autoreact [of "''/ping''" "Some [''global'' \<mapsto> default_settings]" ?ok 4
           "[''global'' \<mapsto> default_settings]" default_settings,
         THEN conjunct2, THEN conjunct1, THEN mp, OF b]
  show ?thesis unfolding r by simp
qed

text \<open>
  C7. For every inbound text that begins with \<open>/\<close>, the handler of plain messages
  issues no reaction call. The variant \<open>p0b\<close> breaks it: \<^verbatim>\<open>/ping\<close>, whose handler
  is registered after the handler of messages, is taken by the latter, which issues a
  reaction call for it while auto-reaction is on.
\<close>

theorem ping_gets_reaction_p0b:
  "route_p0b ''/ping'' = HOnMessage
   \<and> on_message_p0b (Some [''global'' \<mapsto> default_settings]) (Some ''/ping'') (\<lambda>k. True) 0
        = [React (Some thumbs_up)]"
  by (simp add: route_p0b_def command_of_def startsWith_def is_command_char_def
        on_message_p0b_def default_settings_def truthy_def randomEmoji_def)




text \<open>
  The start without the token. In the variants \<open>idx\<close>, \<open>p0a\<close>, \<open>p1\<close>, \<open>p2a\<close> and
  \<open>p2b\<close>, a start without the bot token ends the process with status 1 as its first
  and only step: no client is constructed and no connection attempted. The variant
  \<open>p0b\<close> does not test the token and never calls \<^verbatim>\<open>process.exit\<close>: once its two
  constructors have returned, it connects to the database.
\<close>

theorem missing_token_exits:
  assumes "\<not> truthy (BOT_TOKEN e)"
  shows "main_idx e w = [ProcessExit 1] \<and> main_p0a e w = [ProcessExit 1]
       \<and> main_p1 e w = [ProcessExit 1] \<and> main_p2a e w = [ProcessExit 1]
       \<and> main_p2b e w = [ProcessExit 1]
       \<and> (\<forall>n. ProcessExit n \<notin> set (main_p0b e w))
       \<and> (telegraf_new w \<and> mongo_new w \<longrightarrow>
            (\<exists>rest. main_p0b e w =
                NewTelegraf (BOT_TOKEN e) # NewMongoClient (MONGO_URI e) # MongoConnect # rest))"
  using assms
  by (auto simp: main_idx_def main_p0a_def main_p1_def main_p2a_def main_p2b_def
        main_p0b_def startBot_p0b_def launch_p0b_def split: option.splits)

theorem missing_token_exits_witness:
  "main_idx \<lparr>BOT_TOKEN = None, MONGO_URL = Some ''mongodb://localhost/bot'', MONGODB_URI = None,
              MONGO_URI = None, ADMINS = None\<rparr>
        \<lparr>telegraf_new = True, mongo_new = True, mongo_connect = True, index_ok = (\<lambda>k. True),
          settings_ok = (\<lambda>k. True), launch_ok = True, stored_settings = Map.empty\<rparr>
     = [ProcessExit 1]
   \<and> main_p2b \<lparr>BOT_TOKEN = None, MONGO_URL = Some ''mongodb://localhost/bot'', MONGODB_URI = None,
              MONGO_URI = None, ADMINS = None\<rparr>
        \<lparr>telegraf_new = True, mongo_new = True, mongo_connect = True, index_ok = (\<lambda>k. True),
          settings_ok = (\<lambda>k. True), launch_ok = True, stored_settings = Map.empty\<rparr>
     = [ProcessExit 1]"
proof -
  let ?e = "\<lparr>BOT_TOKEN = None, MONGO_URL = Some ''mongodb://localhost/bot'', MONGODB_URI = None,
              MONGO_URI = None, ADMINS = None\<rparr>"
  have h: "\<not> truthy (BOT_TOKEN ?e)" by (simp add: truthy_def)
  from missing_token_exits [OF h] show ?thesis by blast
qed

text \<open>
  C5. A start with the bot token unset exits the process with a status that is not zero
  before any connection to the platform or to the database is attempted. The variant
  \<open>p0b\<close> breaks it: without the token and with a database URI, its start connects to
  the database, reads the settings and launches the bot, and no exit comes before.
\<close>

theorem missing_token_connects_p0b:
  "main_p0b \<lparr>BOT_TOKEN = None, MONGO_URL = None, MONGODB_URI = None,
              MONGO_URI = Some ''mongodb://localhost/bot'', ADMINS = None\<rparr>
        \<lparr>telegraf_new = True, mongo_new = True, mongo_connect = True, index_ok = (\<lambda>k. True),
          settings_ok = (\<lambda>k. True), launch_ok = True, stored_settings = [''global'' \<mapsto> default_settings]\<rparr>
     = [NewTelegraf None, NewMongoClient (Some ''mongodb://localhost/bot''), MongoConnect,
        UseDatabase ''telegram_md_bot'', FindSettings, BotLaunch]
   \<and> is_network MongoConnect"
  by (simp add: main_p0b_def startBot_p0b_def launch_p0b_def)

end
